theory Spec2Isabelle
  imports Main "HOL-Library.AList"
begin

section \<open>Shared LSP data (vscode-languageserver-types)\<close>

text \<open>
  Positions are zero-based \<open>(line, character)\<close> pairs of unsigned integers, a range is a
  pair of positions and a location is a document URI with a range.  A JavaScript
  \<open>Map\<close> is modelled as an association list in insertion order: \<open>map_of\<close> is
  \<open>Map.get\<close>, \<open>AList.update\<close> is \<open>Map.set\<close> (an existing key keeps its place, a new
  one goes last) and \<open>AList.delete\<close> is \<open>Map.delete\<close>.  Optional properties
  (\<open>p?: T\<close>) are \<open>option\<close> values, \<open>None\<close> standing for \<open>undefined\<close>.
\<close>

datatype Position = Position (line: nat) (character: nat)

datatype Range = Range (range_start: Position) (range_end: Position)

datatype Location = Location (uri: string) (loc_range: Range)

section \<open>The symbol index (packages/code-indexer/src/symbolIndex.ts)\<close>

datatype SymbolEntry =
  SymbolEntry
    (name: string)
    (kind: nat)
    (location: Location)
    (containerName: "string option")
    (deprecated: "bool option")
    (detail: "string option")
    (children: "SymbolEntry list option")
    (isExternal: "bool option")
    (sourceLibrary: "string option")

record FileSymbols =
  fs_uri :: string
  lastModified :: nat
  symbols :: "SymbolEntry list"

datatype KindFilter = OneKind nat | ManyKinds "nat list"

record SymbolQuery =
  q_name :: "string option"
  q_kind :: "KindFilter option"
  q_file :: "string option"
  q_containerName :: "string option"
  includeChildren :: "bool option"
  includeExternal :: "bool option"
  onlyExternal :: "bool option"
  q_sourceLibrary :: "string option"

record SymbolIndexStats =
  totalFiles :: nat
  totalSymbols :: nat

datatype IndexEvent = FileRemoved string

text \<open>
  The fields of \<open>SymbolIndexState\<close> that the modelled operations read or write.
  \<open>fileWatchers\<close> keeps the keys of the watcher map (absolute paths); \<open>closedWatchers\<close>
  logs the calls of \<open>watcher.close()\<close> and \<open>emitted\<close> the events given to the emitter.
  The clock fields of the statistics (\<open>indexingTime\<close>, \<open>lastUpdated\<close>) are left out.
\<close>

record SymbolIndexState =
  fileIndex :: "(string \<times> FileSymbols) list"
  symbolIndex :: "(string \<times> SymbolEntry list) list"
  kindIndex :: "(nat \<times> SymbolEntry list) list"
  containerIndex :: "(string \<times> SymbolEntry list) list"
  fileWatchers :: "string list"
  closedWatchers :: "string list"
  rootPath :: string
  stats :: SymbolIndexStats
  emitted :: "IndexEvent list"

text \<open>JavaScript truthiness of an optional string, number and boolean.\<close>

definition truthy_string :: "string option \<Rightarrow> bool" where
  "truthy_string s = (case s of None \<Rightarrow> False | Some x \<Rightarrow> x \<noteq> [])"

definition truthy_bool :: "bool option \<Rightarrow> bool" where
  "truthy_bool b = (b = Some True)"

definition truthy_kind :: "KindFilter option \<Rightarrow> bool" where
  "truthy_kind k = (case k of None \<Rightarrow> False | Some (OneKind n) \<Rightarrow> n \<noteq> 0 | Some (ManyKinds _) \<Rightarrow> True)"

text \<open>\<open>Array.isArray(query.kind) ? query.kind : [query.kind]\<close>\<close>

definition kinds_of :: "KindFilter option \<Rightarrow> nat list" where
  "kinds_of k = (case k of None \<Rightarrow> [] | Some (OneKind n) \<Rightarrow> [n] | Some (ManyKinds ns) \<Rightarrow> ns)"

text \<open>\<open>map.get(key) || []\<close>\<close>

definition get_or_empty :: "('k \<times> 'v list) list \<Rightarrow> 'k \<Rightarrow> 'v list" where
  "get_or_empty m k = (case map_of m k of None \<Rightarrow> [] | Some v \<Rightarrow> v)"

text \<open>\<open>String.prototype.includes\<close>: the needle occurs somewhere in the string.\<close>

fun str_includes :: "'a list \<Rightarrow> 'a list \<Rightarrow> bool" where
  "str_includes [] needle = (needle = [])"
| "str_includes (c # cs) needle = (take (length needle) (c # cs) = needle \<or> str_includes cs needle)"

subsection \<open>Adding and clearing index entries\<close>

text \<open>
  \<open>addSymbolToIndices\<close>: push the symbol on the lists of its name and kind, on the list
  of its container when \<open>containerName\<close> is truthy, then recurse into the children.
\<close>

definition push_entry :: "'k \<Rightarrow> 'v \<Rightarrow> ('k \<times> 'v list) list \<Rightarrow> ('k \<times> 'v list) list" where
  "push_entry k v m = AList.update k (get_or_empty m k @ [v]) m"

definition addOne :: "SymbolEntry \<Rightarrow> SymbolIndexState \<Rightarrow> SymbolIndexState" where
  "addOne s st =
     (let st1 = st\<lparr>symbolIndex := push_entry (name s) s (symbolIndex st)\<rparr>;
          st2 = st1\<lparr>kindIndex := push_entry (kind s) s (kindIndex st1)\<rparr>
      in (case containerName s of
            None \<Rightarrow> st2
          | Some c \<Rightarrow> if c = [] then st2
                      else st2\<lparr>containerIndex := push_entry c s (containerIndex st2)\<rparr>))"

fun addSymbolToIndices :: "SymbolIndexState \<Rightarrow> SymbolEntry \<Rightarrow> SymbolIndexState"
  and addSymbolsToIndices :: "SymbolIndexState \<Rightarrow> SymbolEntry list \<Rightarrow> SymbolIndexState" where
  "addSymbolToIndices st (SymbolEntry n k l c d dt ch e sl) =
     (let st' = addOne (SymbolEntry n k l c d dt ch e sl) st
      in (case ch of None \<Rightarrow> st' | Some cs \<Rightarrow> addSymbolsToIndices st' cs))"
| "addSymbolsToIndices st [] = st"
| "addSymbolsToIndices st (s # ss) = addSymbolsToIndices (addSymbolToIndices st s) ss"

text \<open>
  \<open>clearFileFromIndices\<close>: \<open>clearFromMap\<close> walks the entries of a map; for each key it
  filters the entries of the URI out of the list and deletes the key when nothing is left,
  else stores the filtered list under the key.
\<close>

definition clearStep :: "string \<Rightarrow> 'k \<times> SymbolEntry list \<Rightarrow> ('k \<times> SymbolEntry list) list
    \<Rightarrow> ('k \<times> SymbolEntry list) list" where
  "clearStep u ke m =
     (let filtered = filter (\<lambda>e. uri (location e) \<noteq> u) (snd ke)
      in if length filtered = 0 then AList.delete (fst ke) m
         else AList.update (fst ke) filtered m)"

definition clearFromMap :: "string \<Rightarrow> ('k \<times> SymbolEntry list) list \<Rightarrow> ('k \<times> SymbolEntry list) list" where
  "clearFromMap u m = fold (clearStep u) m m"

definition clearFileFromIndices :: "SymbolIndexState \<Rightarrow> string \<Rightarrow> SymbolIndexState" where
  "clearFileFromIndices st u =
     st\<lparr>symbolIndex := clearFromMap u (symbolIndex st),
        kindIndex := clearFromMap u (kindIndex st),
        containerIndex := clearFromMap u (containerIndex st)\<rparr>"

text \<open>\<open>updateStats\<close>: count every symbol of every file, children included.\<close>

fun countSymbols :: "SymbolEntry list \<Rightarrow> nat" and countSymbol :: "SymbolEntry \<Rightarrow> nat" where
  "countSymbols [] = 0"
| "countSymbols (s # ss) = countSymbol s + countSymbols ss"
| "countSymbol (SymbolEntry n k l c d dt ch e sl) =
     1 + (case ch of None \<Rightarrow> 0 | Some cs \<Rightarrow> countSymbols cs)"

definition updateStats :: "SymbolIndexState \<Rightarrow> SymbolIndexState" where
  "updateStats st =
     st\<lparr>stats := \<lparr>totalFiles = length (fileIndex st),
                   totalSymbols = sum_list (map (\<lambda>kv. countSymbols (symbols (snd kv))) (fileIndex st))\<rparr>\<rparr>"

text \<open>
  \<open>removeFileFromIndex\<close>.  Node's \<open>resolve(rootPath, filePath)\<close> and
  \<open>pathToFileURL(...).toString()\<close> are the parameters \<open>resolve\<close> and \<open>pathToFileURL\<close>.
\<close>

definition removeFileFromIndex ::
  "(string \<Rightarrow> string \<Rightarrow> string) \<Rightarrow> (string \<Rightarrow> string) \<Rightarrow> SymbolIndexState \<Rightarrow> string \<Rightarrow> SymbolIndexState" where
  "removeFileFromIndex resolve pathToFileURL st filePath =
     (let u = pathToFileURL (resolve (rootPath st) filePath);
          st1 = clearFileFromIndices st u;
          st2 = st1\<lparr>fileIndex := AList.delete u (fileIndex st1)\<rparr>;
          absolutePath = resolve (rootPath st) filePath;
          st3 = (if absolutePath \<in> set (fileWatchers st2)
                 then st2\<lparr>closedWatchers := closedWatchers st2 @ [absolutePath],
                          fileWatchers := removeAll absolutePath (fileWatchers st2)\<rparr>
                 else st2);
          st4 = updateStats st3
      in st4\<lparr>emitted := emitted st4 @ [FileRemoved u]\<rparr>)"

subsection \<open>Position lookup\<close>





subsection \<open>Queries\<close>

text \<open>
  \<open>addSymbols\<close> of the "return all symbols" branch and \<open>addChildren\<close> of the
  \<open>includeChildren\<close> step: a pre-order walk, descending into the children when \<open>deep\<close>.
\<close>

fun addSymbols :: "bool \<Rightarrow> SymbolEntry list \<Rightarrow> SymbolEntry list" where
  "addSymbols deep [] = []"
| "addSymbols deep (SymbolEntry n k l c d dt ch e sl # ss) =
     SymbolEntry n k l c d dt ch e sl
       # (case ch of None \<Rightarrow> [] | Some cs \<Rightarrow> if deep then addSymbols deep cs else [])
       @ addSymbols deep ss"

definition addChildren :: "SymbolEntry \<Rightarrow> SymbolEntry list" where
  "addChildren s = (case children s of None \<Rightarrow> [] | Some cs \<Rightarrow> addSymbols True cs)"

text \<open>
  The first stage of \<open>querySymbols\<close>: by name (exact, else the case-insensitive substring
  fallback over the whole name index), else by kind, else by container, else every symbol
  of every file.  \<open>String.prototype.toLowerCase\<close> is the parameter \<open>toLowerCase\<close>.
\<close>

definition initialResults ::
  "(string \<Rightarrow> string) \<Rightarrow> SymbolIndexState \<Rightarrow> SymbolQuery \<Rightarrow> SymbolEntry list" where
  "initialResults toLowerCase st query =
     (if truthy_string (q_name query) then
        (let nameResults = get_or_empty (symbolIndex st) (the (q_name query))
         in if length nameResults = 0
            then concat (map snd (filter
                   (\<lambda>kv. str_includes (toLowerCase (fst kv)) (toLowerCase (the (q_name query))))
                   (symbolIndex st)))
            else nameResults)
      else if truthy_kind (q_kind query) then
        concat (map (get_or_empty (kindIndex st)) (kinds_of (q_kind query)))
      else if truthy_string (q_containerName query) then
        get_or_empty (containerIndex st) (the (q_containerName query))
      else
        concat (map (\<lambda>kv. addSymbols (includeChildren query \<noteq> Some False) (symbols (snd kv)))
                    (fileIndex st)))"

text \<open>The external-library filter of \<open>querySymbols\<close> (lines 606 to 614).\<close>

definition externalFilter :: "SymbolQuery \<Rightarrow> SymbolEntry list \<Rightarrow> SymbolEntry list" where
  "externalFilter query results =
     (if truthy_bool (onlyExternal query) then filter (\<lambda>s. isExternal s = Some True) results
      else if includeExternal query = Some False
           then filter (\<lambda>s. isExternal s \<noteq> Some True) results
      else results)"

text \<open>The file, container and kind filters of \<open>querySymbols\<close> (lines 588 to 604).\<close>

definition plainFilters ::
  "(string \<Rightarrow> string \<Rightarrow> string) \<Rightarrow> (string \<Rightarrow> string) \<Rightarrow> SymbolIndexState \<Rightarrow> SymbolQuery
    \<Rightarrow> SymbolEntry list \<Rightarrow> SymbolEntry list" where
  "plainFilters resolve pathToFileURL st query r0 =
     (let r1 = (if truthy_string (q_file query)
                then filter (\<lambda>s. uri (location s)
                                   = pathToFileURL (resolve (rootPath st) (the (q_file query)))) r0
                else r0);
          r2 = (if truthy_string (q_containerName query) \<and> truthy_string (q_name query)
                then filter (\<lambda>s. containerName s = q_containerName query) r1
                else r1)
      in if truthy_string (q_name query) \<and> truthy_kind (q_kind query)
         then filter (\<lambda>s. kind s \<in> set (kinds_of (q_kind query))) r2
         else r2)"

text \<open>The library filter and the \<open>includeChildren\<close> step (lines 616 to 640).\<close>

definition finalSteps :: "SymbolQuery \<Rightarrow> SymbolEntry list \<Rightarrow> SymbolEntry list" where
  "finalSteps query r4 =
     (let r5 = (if truthy_string (q_sourceLibrary query)
                then filter (\<lambda>s. sourceLibrary s = q_sourceLibrary query) r4
                else r4)
      in if truthy_bool (includeChildren query) then r5 @ concat (map addChildren r5) else r5)"

definition querySymbols ::
  "(string \<Rightarrow> string \<Rightarrow> string) \<Rightarrow> (string \<Rightarrow> string) \<Rightarrow> (string \<Rightarrow> string)
    \<Rightarrow> SymbolIndexState \<Rightarrow> SymbolQuery \<Rightarrow> SymbolEntry list" where
  "querySymbols resolve pathToFileURL toLowerCase st query =
     finalSteps query
       (externalFilter query
          (plainFilters resolve pathToFileURL st query (initialResults toLowerCase st query)))"

subsection \<open>Vocabulary of the statements about the index\<close>



section \<open>The LSP client (src/lsp/lspClient.ts)\<close>

subsection \<open>Messages\<close>

text \<open>
  A diagnostic as it arrives in JSON: the \<open>range\<close> property may be missing.  The
  parameter and result shapes are the ones the modelled requests and notifications use.
  In \<open>LSPMessage\<close> the member \<open>id\<close> is \<open>msg_id\<close> and the member \<open>method\<close> is
  \<open>msg_method\<close>.
\<close>

datatype Diagnostic =
  Diagnostic (diag_range: "Range option") (severity: "nat option") (diag_message: string)

datatype ResponseError = ResponseError (err_code: int) (err_message: string)

type_synonym TextEdit = "Range \<times> string"

type_synonym WorkspaceEdit = "(string \<times> TextEdit list) list"

datatype Params =
    DidOpenTextDocumentParams string string nat string
  | DidCloseTextDocumentParams string
  | PublishDiagnosticsParams string "Diagnostic option list"
  | TextDocumentPositionParams string Position
  | ReferenceParams string Position bool
  | RenameParams string Position string
  | WorkspaceSymbolParams string
  | OtherParams

datatype Result =
    NullResult
  | LocationsResult "Location list"
  | RangeResult Range
  | RangeObjectResult Range
  | WorkspaceEditResult WorkspaceEdit
  | TextResult string

record LSPMessage =
  msg_id :: "nat option"
  msg_method :: "string option"
  params :: "Params option"
  result :: "Result option"
  error :: "ResponseError option"

text \<open>
  A JavaScript \<open>Error\<close>: its message and its \<open>code\<close> property, which \<open>new Error(m)\<close>
  leaves undefined.  A promise is settled with a value or rejected with an error.
\<close>

datatype JsError = JsError (message: string) (code: "int option")

datatype 'a Outcome = Resolved 'a | Rejected JsError

datatype LineParam = LineNumber nat | LineText string

datatype Details =
    NoDetails
  | RequestDetails string "Params option"
  | ResponseDetails int
  | LineDetails LineParam

record ErrorContext =
  operation :: string
  language :: "string option"
  ctx_filePath :: "string option"
  symbolName :: "string option"
  details :: Details

text \<open>
  \<open>formatError\<close> is defined in mcp/utils/errorHandler.ts, outside the modelled files;
  every function that calls it takes it as the parameter \<open>formatError\<close>.
\<close>

type_synonym Formatter = "JsError \<Rightarrow> ErrorContext \<Rightarrow> string"

subsection \<open>The client state\<close>

text \<open>
  What a response handler and a request timer close over: the method and parameters of
  the request, and the time (in milliseconds) at which the timer fires.
\<close>

record Pending =
  p_method :: string
  p_params :: "Params option"
  deadline :: nat

datatype ClientEvent =
    DiagnosticsEvent string "Diagnostic list"
  | MessageEvent LSPMessage

text \<open>
  \<open>process\<close> says that \<open>state.process\<close> is not null.  \<open>timers\<close> holds the armed request
  timers, \<open>promises\<close> the settled promises of \<open>sendRequest\<close> by request id, \<open>stdin\<close> the
  messages written to the server and \<open>events\<close> what the event emitter was given.  The
  receive buffer and the pending content length live in the record \<open>Framing\<close> below.
\<close>

record LSPClientState =
  process :: bool
  messageId :: nat
  responseHandlers :: "nat \<rightharpoonup> Pending"
  timers :: "nat \<rightharpoonup> Pending"
  promises :: "nat \<rightharpoonup> Result Outcome"
  diagnostics :: "string \<rightharpoonup> Diagnostic list"
  openDocuments :: "string set"
  languageId :: string
  stdin :: "LSPMessage list"
  events :: "ClientEvent list"

text \<open>
  \<open>createLSPClient\<close> with a process and an optional language id, and the \<open>exit\<close>
  handler of the process, which sets \<open>state.process\<close> to null.
\<close>

definition createLSPClient :: "string option \<Rightarrow> LSPClientState" where
  "createLSPClient lang =
     \<lparr>process = True, messageId = 0, responseHandlers = Map.empty, timers = Map.empty,
      promises = Map.empty, diagnostics = Map.empty, openDocuments = {},
      languageId = (if truthy_string lang then the lang else ''plaintext''),
      stdin = [], events = []\<rparr>"

definition onExit :: "LSPClientState \<Rightarrow> LSPClientState" where
  "onExit st = st\<lparr>process := False\<rparr>"

text \<open>Settling a promise: the first \<open>resolve\<close> or \<open>reject\<close> wins.\<close>

definition settle :: "nat \<Rightarrow> Result Outcome \<Rightarrow> LSPClientState \<Rightarrow> LSPClientState" where
  "settle i out st =
     (case promises st i of
        None \<Rightarrow> st\<lparr>promises := (promises st)(i \<mapsto> out)\<rparr>
      | Some _ \<Rightarrow> st)"

subsection \<open>Sending\<close>

definition sendMessage :: "LSPMessage \<Rightarrow> LSPClientState \<Rightarrow> JsError + LSPClientState" where
  "sendMessage m st =
     (if \<not> process st then Inl (JsError ''LSP server not started'' None)
      else Inr (st\<lparr>stdin := stdin st @ [m]\<rparr>))"

definition sendNotification :: "string \<Rightarrow> Params option \<Rightarrow> LSPClientState \<Rightarrow> JsError + LSPClientState" where
  "sendNotification m ps st =
     sendMessage \<lparr>msg_id = None, msg_method = Some m, params = ps, result = None, error = None\<rparr> st"

text \<open>
  \<open>sendRequest\<close> at time \<open>now\<close>: take the next id, arm the timer of 30000 ms, register
  the response handler, write the message.  When \<open>sendMessage\<close> throws, the promise is
  rejected at once; the handler and the timer stay.
\<close>

definition sendRequest :: "nat \<Rightarrow> string \<Rightarrow> Params option \<Rightarrow> LSPClientState \<Rightarrow> nat \<times> LSPClientState" where
  "sendRequest now m ps st =
     (let i = messageId st + 1;
          p = \<lparr>p_method = m, p_params = ps, deadline = now + 30000\<rparr>;
          st1 = st\<lparr>messageId := i\<rparr>;
          st2 = st1\<lparr>timers := (timers st1)(i \<mapsto> p)\<rparr>;
          st3 = st2\<lparr>responseHandlers := (responseHandlers st2)(i \<mapsto> p)\<rparr>
      in (case sendMessage \<lparr>msg_id = Some i, msg_method = Some m, params = ps,
                            result = None, error = None\<rparr> st3 of
            Inl e \<Rightarrow> (i, settle i (Rejected e) st3)
          | Inr st4 \<Rightarrow> (i, st4)))"

text \<open>
  The timer of request \<open>i\<close> fires (at a time \<open>now\<close> not before its deadline, and only
  while armed): delete the pending entry, reject with the formatted time-out error.
\<close>

definition timeoutError :: "Formatter \<Rightarrow> string \<Rightarrow> Pending \<Rightarrow> JsError" where
  "timeoutError formatError lang p =
     JsError (formatError
                (JsError (''Request '' @ [CHR 0x27] @ p_method p @ [CHR 0x27]
                            @ '' timed out after 30 seconds'') None)
                \<lparr>operation = p_method p, language = Some lang, ctx_filePath = None,
                 symbolName = None, details = RequestDetails (p_method p) (p_params p)\<rparr>)
             None"

definition timeoutFires :: "Formatter \<Rightarrow> nat \<Rightarrow> nat \<Rightarrow> LSPClientState \<Rightarrow> LSPClientState" where
  "timeoutFires formatError now i st =
     (case timers st i of
        None \<Rightarrow> st
      | Some p \<Rightarrow>
          if now < deadline p then st
          else (let st1 = st\<lparr>timers := (timers st)(i := None)\<rparr>;
                    st2 = st1\<lparr>responseHandlers := (responseHandlers st1)(i := None)\<rparr>
                in settle i (Rejected (timeoutError formatError (languageId st) p)) st2))"

subsection \<open>Receiving\<close>

text \<open>
  The response handler that \<open>sendRequest\<close> registered: clear the timer, delete the entry,
  then reject on an \<open>error\<close> member, else resolve with the result.
\<close>

definition responseError :: "Formatter \<Rightarrow> string \<Rightarrow> Pending \<Rightarrow> ResponseError \<Rightarrow> JsError" where
  "responseError formatError lang p e =
     JsError (formatError (JsError (err_message e) None)
                \<lparr>operation = p_method p, language = Some lang, ctx_filePath = None,
                 symbolName = None, details = ResponseDetails (err_code e)\<rparr>)
             None"

definition responseHandler ::
  "Formatter \<Rightarrow> nat \<Rightarrow> Pending \<Rightarrow> LSPMessage \<Rightarrow> LSPClientState \<Rightarrow> LSPClientState" where
  "responseHandler formatError i p response st =
     (let st1 = st\<lparr>timers := (timers st)(i := None)\<rparr>;
          st2 = st1\<lparr>responseHandlers := (responseHandlers st1)(i := None)\<rparr>
      in (case error response of
            Some e \<Rightarrow> settle i (Rejected (responseError formatError (languageId st) p e)) st2
          | None \<Rightarrow>
              settle i (Resolved (case result response of Some r \<Rightarrow> r | None \<Rightarrow> NullResult)) st2))"

text \<open>\<open>params.diagnostics.filter((d) => d && d.range)\<close>\<close>

definition validDiagnostics :: "Diagnostic option list \<Rightarrow> Diagnostic list" where
  "validDiagnostics ds =
     List.map_filter
       (\<lambda>d. case d of None \<Rightarrow> None
                     | Some x \<Rightarrow> if diag_range x = None then None else Some x) ds"

text \<open>
  \<open>handleMessage\<close>.  A message with an id and a result or an error is a response; any
  other message with a method is a notification or a server request.  Diagnostics
  parameters of another shape make \<open>params.diagnostics.filter\<close> throw; the caller catches
  that, and the state is as before the call.
\<close>

definition handleMessage :: "Formatter \<Rightarrow> LSPMessage \<Rightarrow> LSPClientState \<Rightarrow> LSPClientState" where
  "handleMessage formatError m st =
     (if msg_id m \<noteq> None \<and> (result m \<noteq> None \<or> error m \<noteq> None) then
        (case responseHandlers st (the (msg_id m)) of
           None \<Rightarrow> st
         | Some p \<Rightarrow>
             (let st1 = responseHandler formatError (the (msg_id m)) p m st
              in st1\<lparr>responseHandlers := (responseHandlers st1)(the (msg_id m) := None)\<rparr>))
      else if truthy_string (msg_method m) then
        (if msg_method m = Some ''textDocument/publishDiagnostics'' \<and> params m \<noteq> None then
           (case params m of
              Some (PublishDiagnosticsParams u ds) \<Rightarrow>
                (let valid = validDiagnostics ds;
                     st1 = st\<lparr>diagnostics := (diagnostics st)(u \<mapsto> valid)\<rparr>;
                     st2 = st1\<lparr>events := events st1 @ [DiagnosticsEvent u valid]\<rparr>
                 in st2\<lparr>events := events st2 @ [MessageEvent m]\<rparr>)
            | _ \<Rightarrow> st)
         else st\<lparr>events := events st @ [MessageEvent m]\<rparr>)
      else st)"

subsection \<open>Documents\<close>

text \<open>
  \<open>getLanguageIdFromPath\<close> (languageDetection.ts) is a parameter.  \<open>a || b || c\<close> takes
  the first truthy string.
\<close>

definition openDocument ::
  "(string \<Rightarrow> string option) \<Rightarrow> string \<Rightarrow> string \<Rightarrow> string option \<Rightarrow> LSPClientState
    \<Rightarrow> JsError + LSPClientState" where
  "openDocument getLanguageIdFromPath u text lang st =
     (let actualLanguageId =
            (if truthy_string lang then the lang
             else if truthy_string (getLanguageIdFromPath u) then the (getLanguageIdFromPath u)
             else languageId st)
      in (case sendNotification ''textDocument/didOpen''
                 (Some (DidOpenTextDocumentParams u actualLanguageId 1 text)) st of
            Inl e \<Rightarrow> Inl e
          | Inr st1 \<Rightarrow> Inr (st1\<lparr>openDocuments := insert u (openDocuments st1)\<rparr>)))"

definition closeDocument :: "string \<Rightarrow> LSPClientState \<Rightarrow> JsError + LSPClientState" where
  "closeDocument u st =
     (case sendNotification ''textDocument/didClose'' (Some (DidCloseTextDocumentParams u)) st of
        Inl e \<Rightarrow> Inl e
      | Inr st1 \<Rightarrow>
          (let st2 = st1\<lparr>diagnostics := (diagnostics st1)(u := None)\<rparr>
           in Inr (st2\<lparr>openDocuments := openDocuments st2 - {u}\<rparr>)))"

definition isDocumentOpen :: "string \<Rightarrow> LSPClientState \<Rightarrow> bool" where
  "isDocumentOpen u st = (u \<in> openDocuments st)"

definition getDiagnostics :: "string \<Rightarrow> LSPClientState \<Rightarrow> Diagnostic list" where
  "getDiagnostics u st = (case diagnostics st u of None \<Rightarrow> [] | Some ds \<Rightarrow> ds)"

subsection \<open>Awaited requests\<close>

text \<open>
  What the server does with a request: it answers with a result, answers with an error,
  or stays silent until the request timer fires.  \<open>awaitRequest\<close> is
  \<open>await sendRequest(method, params)\<close> in a run where nothing else happens in between:
  the request is sent at \<open>now\<close>, then the response is handled or the timer fires.
\<close>

datatype Reply = Reply Result | ErrorReply ResponseError | NoReply

definition awaitRequest ::
  "Formatter \<Rightarrow> nat \<Rightarrow> string \<Rightarrow> Params option \<Rightarrow> Reply \<Rightarrow> LSPClientState
    \<Rightarrow> Result Outcome \<times> LSPClientState" where
  "awaitRequest formatError now m ps reply st =
     (let (i, st1) = sendRequest now m ps st;
          st2 = (case reply of
                   Reply r \<Rightarrow>
                     handleMessage formatError
                       \<lparr>msg_id = Some i, msg_method = None, params = None,
                        result = Some r, error = None\<rparr> st1
                 | ErrorReply e \<Rightarrow>
                     handleMessage formatError
                       \<lparr>msg_id = Some i, msg_method = None, params = None,
                        result = None, error = Some e\<rparr> st1
                 | NoReply \<Rightarrow> timeoutFires formatError (now + 30000) i st1)
      in (case promises st2 i of
            Some out \<Rightarrow> (out, st2)
          | None \<Rightarrow> (Rejected (JsError ''pending'' None), st2)))"

text \<open>The client methods used by the tools.\<close>

definition findReferences ::
  "Formatter \<Rightarrow> nat \<Rightarrow> string \<Rightarrow> Position \<Rightarrow> Reply \<Rightarrow> LSPClientState
    \<Rightarrow> Location list Outcome \<times> LSPClientState" where
  "findReferences formatError now u pos reply st =
     (case awaitRequest formatError now ''textDocument/references''
             (Some (ReferenceParams u pos True)) reply st of
        (Resolved r, st1) \<Rightarrow>
          (Resolved (case r of LocationsResult ls \<Rightarrow> ls | _ \<Rightarrow> []), st1)
      | (Rejected e, st1) \<Rightarrow> (Rejected e, st1))"

definition getHover ::
  "Formatter \<Rightarrow> nat \<Rightarrow> string \<Rightarrow> Position \<Rightarrow> Reply \<Rightarrow> LSPClientState
    \<Rightarrow> Result Outcome \<times> LSPClientState" where
  "getHover formatError now u pos reply st =
     awaitRequest formatError now ''textDocument/hover'' (Some (TextDocumentPositionParams u pos)) reply st"

definition getSignatureHelp ::
  "Formatter \<Rightarrow> nat \<Rightarrow> string \<Rightarrow> Position \<Rightarrow> Reply \<Rightarrow> LSPClientState
    \<Rightarrow> Result Outcome \<times> LSPClientState" where
  "getSignatureHelp formatError now u pos reply st =
     awaitRequest formatError now ''textDocument/signatureHelp''
       (Some (TextDocumentPositionParams u pos)) reply st"

text \<open>\<open>prepareRename\<close> swallows every error and returns null.\<close>

definition prepareRename ::
  "Formatter \<Rightarrow> nat \<Rightarrow> string \<Rightarrow> Position \<Rightarrow> Reply \<Rightarrow> LSPClientState
    \<Rightarrow> Result \<times> LSPClientState" where
  "prepareRename formatError now u pos reply st =
     (case awaitRequest formatError now ''textDocument/prepareRename''
             (Some (TextDocumentPositionParams u pos)) reply st of
        (Resolved r, st1) \<Rightarrow> ((case r of RangeObjectResult rg \<Rightarrow> RangeResult rg | _ \<Rightarrow> r), st1)
      | (Rejected e, st1) \<Rightarrow> (NullResult, st1))"

text \<open>
  \<open>rename\<close>: an error whose message includes "Unhandled method" or "Method not found",
  or whose \<open>code\<close> is -32601, turns into null; any other error is thrown on.
\<close>

definition methodMissing :: "JsError \<Rightarrow> bool" where
  "methodMissing e =
     (str_includes (message e) ''Unhandled method''
      \<or> str_includes (message e) ''Method not found''
      \<or> code e = Some (- 32601))"

definition rename ::
  "Formatter \<Rightarrow> nat \<Rightarrow> string \<Rightarrow> Position \<Rightarrow> string \<Rightarrow> Reply \<Rightarrow> LSPClientState
    \<Rightarrow> Result Outcome \<times> LSPClientState" where
  "rename formatError now u pos newName reply st =
     (case awaitRequest formatError now ''textDocument/rename''
             (Some (RenameParams u pos newName)) reply st of
        (Resolved r, st1) \<Rightarrow> (Resolved r, st1)
      | (Rejected e, st1) \<Rightarrow>
          if methodMissing e then (Resolved NullResult, st1) else (Rejected e, st1))"

subsection \<open>The framed transport\<close>

text \<open>
  A JavaScript string is a sequence of UTF-16 code units; \<open>s.length\<close>, \<open>indexOf\<close> and
  \<open>substring\<close> count code units.  \<open>js\<close> reads a string literal of the theory as code
  units (one per character, 0 to 255).
\<close>

type_synonym jsstring = "nat list"

definition js :: "string \<Rightarrow> jsstring" where
  "js s = map of_char s"

text \<open>
  \<open>Buffer.byteLength(s)\<close>: the length of the UTF-8 encoding.  One byte below U+0080, two
  below U+0800, four for a surrogate pair, three for anything else (a lone surrogate is
  encoded as U+FFFD).
\<close>

definition unitLength :: "nat \<Rightarrow> nat" where
  "unitLength u = (if u < 0x80 then 1 else if u < 0x800 then 2 else 3)"

definition highSurrogate :: "nat \<Rightarrow> bool" where
  "highSurrogate u = (0xD800 \<le> u \<and> u \<le> 0xDBFF)"

definition lowSurrogate :: "nat \<Rightarrow> bool" where
  "lowSurrogate u = (0xDC00 \<le> u \<and> u \<le> 0xDFFF)"

fun byteLength :: "jsstring \<Rightarrow> nat" where
  "byteLength [] = 0"
| "byteLength [u] = unitLength u"
| "byteLength (u # v # us) =
     (if highSurrogate u \<and> lowSurrogate v then 4 + byteLength us
      else unitLength u + byteLength (v # us))"

text \<open>Decimal numerals: \<open>`${n}`\<close> and \<open>parseInt(digits, 10)\<close> on a match of \<open>\\d+\<close>.\<close>

fun decimalDigits :: "nat \<Rightarrow> nat list" where
  "decimalDigits n = (if n < 10 then [n] else decimalDigits (n div 10) @ [n mod 10])"

declare decimalDigits.simps [simp del]

definition numberToString :: "nat \<Rightarrow> jsstring" where
  "numberToString n = map (\<lambda>d. 48 + d) (decimalDigits n)"

definition isDigit :: "nat \<Rightarrow> bool" where
  "isDigit u = (48 \<le> u \<and> u \<le> 57)"

definition parseInt :: "jsstring \<Rightarrow> nat" where
  "parseInt ds = foldl (\<lambda>acc d. 10 * acc + (d - 48)) 0 ds"

text \<open>\<open>s.indexOf(pat)\<close>, with \<open>None\<close> for -1.\<close>

fun indexOf :: "jsstring \<Rightarrow> jsstring \<Rightarrow> nat option" where
  "indexOf [] pat = (if pat = [] then Some 0 else None)"
| "indexOf (c # cs) pat =
     (if take (length pat) (c # cs) = pat then Some 0
      else map_option Suc (indexOf cs pat))"

text \<open>
  \<open>header.match(/Content-Length: (\\d+)/)\<close>: the leftmost place where the literal is
  followed by a digit, and the longest run of digits there.
\<close>

fun matchContentLength :: "jsstring \<Rightarrow> jsstring option" where
  "matchContentLength [] = None"
| "matchContentLength (c # cs) =
     (let digits = takeWhile isDigit (drop 16 (c # cs))
      in if take 16 (c # cs) = js ''Content-Length: '' \<and> digits \<noteq> [] then Some digits
         else matchContentLength cs)"

text \<open>
  \<open>sendMessage\<close> writes \<open>header + content\<close>, where \<open>content\<close> is \<open>JSON.stringify(message)\<close>
  and the header carries its byte length.  \<open>JSON.stringify\<close> and \<open>JSON.parse\<close> are
  parameters; \<open>parse\<close> gives \<open>None\<close> where \<open>JSON.parse\<close> throws.
\<close>

definition crlf2 :: jsstring where
  "crlf2 = [13, 10, 13, 10]"

definition frame :: "jsstring \<Rightarrow> jsstring" where
  "frame content = js ''Content-Length: '' @ numberToString (byteLength content) @ crlf2 @ content"

definition written :: "(LSPMessage \<Rightarrow> jsstring) \<Rightarrow> LSPMessage \<Rightarrow> jsstring" where
  "written stringify m = frame (stringify m)"

text \<open>
  The receive side.  \<open>buffer\<close> is the string \<open>state.buffer\<close>, \<open>contentLength\<close> is -1 while
  no header has been read.  \<open>readHeader\<close> is the block under
  \<open>if (state.contentLength === -1)\<close>: wait for more data, skip a header without a
  length, or go on to the body.
\<close>

record Framing =
  buffer :: jsstring
  contentLength :: int

datatype HeaderStep = Wait | Skip Framing | Body Framing

definition readHeader :: "Framing \<Rightarrow> HeaderStep" where
  "readHeader fr =
     (if contentLength fr = - 1 then
        (case indexOf (buffer fr) crlf2 of
           None \<Rightarrow> Wait
         | Some headerEnd \<Rightarrow>
             (case matchContentLength (take headerEnd (buffer fr)) of
                None \<Rightarrow> Skip (fr\<lparr>buffer := drop (headerEnd + 4) (buffer fr)\<rparr>)
              | Some digits \<Rightarrow>
                  Body \<lparr>buffer = drop (headerEnd + 4) (buffer fr),
                        contentLength = int (parseInt digits)\<rparr>))
      else Body fr)"

lemma indexOf_bound: "indexOf xs pat = Some i \<Longrightarrow> i + length pat \<le> length xs"
proof (induction xs arbitrary: i)
  case Nil
  then show ?case by (simp split: if_splits)
next
  case (Cons c cs)
  show ?case
  proof (cases "take (length pat) (c # cs) = pat")
    case True
    then have "length (take (length pat) (c # cs)) = length pat"
      by simp
    then have "length pat \<le> length (c # cs)"
      unfolding length_take by linarith
    with True Cons.prems show ?thesis by simp
  next
    case False
    with Cons.prems obtain j where "indexOf cs pat = Some j" "i = Suc j"
      by auto
    with Cons.IH show ?thesis by simp
  qed
qed

lemma readHeader_Skip:
  "readHeader fr = Skip fr' \<Longrightarrow> buffer fr \<noteq> [] \<Longrightarrow>
   length (buffer fr') < length (buffer fr) \<and> contentLength fr' = contentLength fr"
  by (auto simp: readHeader_def split: if_splits option.splits dest: indexOf_bound)

lemma readHeader_Body:
  "readHeader fr = Body fr' \<Longrightarrow> buffer fr \<noteq> [] \<Longrightarrow>
   (fr' = fr \<and> contentLength fr \<noteq> - 1) \<or> length (buffer fr') < length (buffer fr)"
  by (auto simp: readHeader_def split: if_splits option.splits dest: indexOf_bound)

text \<open>
  \<open>processBuffer\<close>: the loop runs while the buffer is not empty.  A complete body is cut
  off the buffer, parsed and handed to \<open>handleMessage\<close>; a body that does not parse is
  dropped.
\<close>

function processBuffer ::
  "(jsstring \<Rightarrow> LSPMessage option) \<Rightarrow> Formatter \<Rightarrow> Framing \<Rightarrow> LSPClientState
    \<Rightarrow> Framing \<times> LSPClientState" where
  "processBuffer parse formatError fr st =
     (if length (buffer fr) > 0 then
        (case readHeader fr of
           Wait \<Rightarrow> (fr, st)
         | Skip fr1 \<Rightarrow> processBuffer parse formatError fr1 st
         | Body fr1 \<Rightarrow>
             if int (length (buffer fr1)) < contentLength fr1 then (fr1, st)
             else (let messageBody = take (nat (contentLength fr1)) (buffer fr1);
                       fr2 = \<lparr>buffer = drop (nat (contentLength fr1)) (buffer fr1),
                              contentLength = - 1\<rparr>;
                       st1 = (case parse messageBody of
                                Some m \<Rightarrow> handleMessage formatError m st
                              | None \<Rightarrow> st)
                   in processBuffer parse formatError fr2 st1))
      else (fr, st))"
  by pat_completeness auto
termination
proof (relation "measure (\<lambda>(parse, formatError, fr, st).
          2 * length (buffer fr) + (if contentLength fr = - 1 then 0 else 1))", goal_cases)
  case 1
  then show ?case by simp
next
  case (2 parse formatError fr st fr1)
  then show ?case using readHeader_Skip[of fr fr1] by auto
next
  case (3 parse formatError fr st fr1 messageBody fr2 st1)
  then show ?case using readHeader_Body[of fr fr1] by auto
qed

declare processBuffer.simps [simp del]

text \<open>The \<open>data\<close> handler of the server's output: append the chunk, run the loop.\<close>

definition onData ::
  "(jsstring \<Rightarrow> LSPMessage option) \<Rightarrow> Formatter \<Rightarrow> jsstring \<Rightarrow> Framing \<times> LSPClientState
    \<Rightarrow> Framing \<times> LSPClientState" where
  "onData parse formatError chunk s =
     processBuffer parse formatError ((fst s)\<lparr>buffer := buffer (fst s) @ chunk\<rparr>) (snd s)"

section \<open>The tool handlers\<close>

text \<open>Decimal numerals inside the texts the tools return.\<close>

definition showNat :: "nat \<Rightarrow> string" where
  "showNat n = map (\<lambda>d. char_of (48 + d)) (decimalDigits n)"

subsection \<open>find_references (src/tools/lsp/references.ts)\<close>

record FindReferencesRequest =
  fr_root :: string
  fr_filePath :: string
  fr_line :: LineParam
  fr_symbolName :: string

record Reference =
  ref_filePath :: string
  ref_line :: nat
  ref_column :: nat
  ref_text :: string
  ref_preview :: string

text \<open>
  \<open>findReferencesWithLSP\<close>.  The two steps before the document is opened are given by
  their outcomes: \<open>readResult\<close> is what \<open>readFileWithMetadata\<close> returns (file content and
  URI) or throws, \<open>validation\<close> what \<open>validateLineAndSymbol\<close> returns (line and symbol
  index) or throws.  The loop that renders each location (lines 110 to 147) reads files
  and does not touch the client; it is the parameter \<open>toReference\<close>, which gives \<open>None\<close>
  for a location in a file that cannot be read.  The request goes out after the wait of
  1000 ms.  The client is the one passed in, so the check \<open>!client\<close> does not fire.
\<close>

definition referencesContext :: "FindReferencesRequest \<Rightarrow> ErrorContext" where
  "referencesContext request =
     \<lparr>operation = ''find references'', language = Some ''lsp'',
      ctx_filePath = Some (fr_filePath request), symbolName = Some (fr_symbolName request),
      details = NoDetails\<rparr>"

definition referencesMessage :: "FindReferencesRequest \<Rightarrow> Reference list \<Rightarrow> string" where
  "referencesMessage request references =
     ''Found '' @ showNat (length references) @ '' reference''
       @ (if length references = 1 then [] else ''s'')
       @ '' to '' @ [CHR 0x22] @ fr_symbolName request @ [CHR 0x22]"

definition findReferencesWithLSP ::
  "Formatter \<Rightarrow> (string \<Rightarrow> string option) \<Rightarrow> (Location \<Rightarrow> Reference option) \<Rightarrow> nat
    \<Rightarrow> FindReferencesRequest \<Rightarrow> JsError + string \<times> string \<Rightarrow> JsError + nat \<times> nat \<Rightarrow> Reply
    \<Rightarrow> LSPClientState \<Rightarrow> (string + string \<times> Reference list) \<times> LSPClientState" where
  "findReferencesWithLSP formatError getLanguageIdFromPath toReference now request
       readResult validation reply st =
     (case readResult of
        Inl e \<Rightarrow>
          (Inl (formatError e
                  \<lparr>operation = ''find references'', language = Some ''lsp'',
                   ctx_filePath = Some (fr_filePath request), symbolName = None,
                   details = NoDetails\<rparr>), st)
      | Inr (fileContent, fileUri) \<Rightarrow>
          (case validation of
             Inl e \<Rightarrow>
               (Inl (formatError e
                       \<lparr>operation = ''symbol validation'', language = None,
                        ctx_filePath = Some (fr_filePath request),
                        symbolName = Some (fr_symbolName request),
                        details = LineDetails (fr_line request)\<rparr>), st)
           | Inr (targetLine, symbolPosition) \<Rightarrow>
               (case openDocument getLanguageIdFromPath fileUri fileContent None st of
                  Inl e \<Rightarrow> (Inl (formatError e (referencesContext request)), st)
                | Inr st1 \<Rightarrow>
                    (case findReferences formatError (now + 1000) fileUri
                            (Position targetLine symbolPosition) reply st1 of
                       (Rejected e, st2) \<Rightarrow>
                         (Inl (formatError e (referencesContext request)), st2)
                     | (Resolved locations, st2) \<Rightarrow>
                         (let references = List.map_filter toReference locations
                          in (Inr (referencesMessage request references, references), st2))))))"

subsection \<open>get_signature_help (tools/lsp/signatureHelp.ts)\<close>

text \<open>
  \<open>handleGetSignatureHelp\<close>.  Everything up to the opening of the document (path
  resolution, \<open>fs.access\<close>, \<open>fs.readFile\<close>, the line and character computation) is given by
  its outcome \<open>prep\<close>: an error thrown there, or the URI, the content, the line index and
  the character.  The payload of the answer is kept as text and \<open>formatSignatureHelp\<close>, a
  pure formatter, is a parameter; on an answer of another shape the formatter throws a
  \<open>TypeError\<close>.  The \<open>finally\<close> block closes the document; an error thrown by
  \<open>closeDocument\<close> replaces the result.
\<close>

definition atPosition :: "string \<Rightarrow> nat \<Rightarrow> nat \<Rightarrow> string" where
  "atPosition filePath lineIndex character' =
     filePath @ '':'' @ showNat (lineIndex + 1) @ '':'' @ showNat (character' + 1)"

definition handleGetSignatureHelp ::
  "Formatter \<Rightarrow> (string \<Rightarrow> string option) \<Rightarrow> (string \<Rightarrow> string) \<Rightarrow> nat \<Rightarrow> string
    \<Rightarrow> JsError + string \<times> string \<times> nat \<times> nat \<Rightarrow> Reply \<Rightarrow> LSPClientState
    \<Rightarrow> string Outcome \<times> LSPClientState" where
  "handleGetSignatureHelp formatError getLanguageIdFromPath formatSignatureHelp now filePath
       prep reply st =
     (case prep of
        Inl e \<Rightarrow> (Rejected e, st)
      | Inr (fileUri, content, lineIndex, character') \<Rightarrow>
          (case openDocument getLanguageIdFromPath fileUri content None st of
             Inl e \<Rightarrow> (Rejected e, st)
           | Inr st1 \<Rightarrow>
               (let (help, st2) = getSignatureHelp formatError (now + 500) fileUri
                                    (Position lineIndex character') reply st1;
                    answer =
                      (case help of
                         Rejected e \<Rightarrow> Rejected e
                       | Resolved NullResult \<Rightarrow>
                           Resolved (''No signature help available at ''
                                       @ atPosition filePath lineIndex character')
                       | Resolved (TextResult h) \<Rightarrow>
                           Resolved (''Signature help at ''
                                       @ atPosition filePath lineIndex character'
                                       @ [CHR 0x3A, CHR 0x0A, CHR 0x0A] @ formatSignatureHelp h)
                       | Resolved _ \<Rightarrow>
                           Rejected (JsError ''Cannot read properties of undefined'' None))
                in (case closeDocument fileUri st2 of
                      Inl e \<Rightarrow> (Rejected e, st2)
                    | Inr st3 \<Rightarrow> (answer, st3)))))"

subsection \<open>withLSPOperation (src/lsp/client/lspOperations.ts)\<close>

text \<open>
  The delay and the time-out come from \<open>getServerCharacteristics\<close> (defined in
  config/serverCharacteristics.ts, outside the modelled files) or from the options; they
  are the parameters \<open>waitTime\<close> and
  \<open>timeout\<close>.  \<open>withErrorHandling\<close> is the parameter of the same name, acting on the
  outcome of the operation.  The operation starts after the wait and gives \<open>None\<close> when
  it has not settled by the time the race is lost to the timer.
\<close>

definition withLSPOperation ::
  "(string \<Rightarrow> string option) \<Rightarrow> (Result Outcome \<Rightarrow> Result Outcome) \<Rightarrow> nat \<Rightarrow> nat \<Rightarrow> nat
    \<Rightarrow> string \<Rightarrow> string \<Rightarrow> string option
    \<Rightarrow> (nat \<Rightarrow> LSPClientState \<Rightarrow> Result Outcome option \<times> LSPClientState)
    \<Rightarrow> LSPClientState \<Rightarrow> Result Outcome \<times> LSPClientState" where
  "withLSPOperation getLanguageIdFromPath withErrorHandling waitTime timeout now
       fileUri fileContent lang operation' st =
     (let actualLanguageId =
            (if truthy_string lang then the lang
             else if languageId st \<noteq> [] then languageId st
             else ''plaintext'')
      in (case openDocument getLanguageIdFromPath fileUri fileContent (Some actualLanguageId) st of
            Inl e \<Rightarrow> (Rejected e, st)
          | Inr st1 \<Rightarrow>
              (case operation' (now + waitTime) st1 of
                 (Some out, st2) \<Rightarrow> (withErrorHandling out, st2)
               | (None, st2) \<Rightarrow>
                   (Rejected (JsError (''LSP operation timed out after '' @ showNat timeout
                                         @ ''ms'') None), st2))))"

text \<open>The hover operation as \<open>withLSPOperation\<close> runs it: it always settles, at the latest
  when the request timer fires.\<close>

definition hoverOperation ::
  "Formatter \<Rightarrow> string \<Rightarrow> Position \<Rightarrow> Reply \<Rightarrow> nat \<Rightarrow> LSPClientState
    \<Rightarrow> Result Outcome option \<times> LSPClientState" where
  "hoverOperation formatError u pos reply t st =
     (case getHover formatError t u pos reply st of (out, st1) \<Rightarrow> (Some out, st1))"

subsection \<open>rename_symbol (performRenameAtPosition)\<close>

record RenameSymbolRequest =
  rn_root :: string
  rn_filePath :: string
  rn_target :: string
  rn_newName :: string

type_synonym FileChange = "nat \<times> nat \<times> string \<times> string"

type_synonym RenameSymbolSuccess = "string \<times> (string \<times> FileChange list) list"

type_synonym Files = "string \<rightharpoonup> string"

text \<open>
  The loop that opens the other project files: a file that cannot be read, or whose
  opening throws, is skipped.
\<close>

definition openProjectFile ::
  "(string \<Rightarrow> string option) \<Rightarrow> Files \<Rightarrow> string \<Rightarrow> string \<Rightarrow> LSPClientState \<Rightarrow> LSPClientState" where
  "openProjectFile getLanguageIdFromPath files target file st =
     (if file \<noteq> target then
        (case files file of
           None \<Rightarrow> st
         | Some content \<Rightarrow>
             (case openDocument getLanguageIdFromPath (''file://'' @ file) content None st of
                Inl e \<Rightarrow> st
              | Inr st1 \<Rightarrow> st1))
      else st)"

definition closeProjectFile :: "string \<Rightarrow> string \<Rightarrow> LSPClientState \<Rightarrow> LSPClientState" where
  "closeProjectFile target file st =
     (if file \<noteq> target then
        (case closeDocument (''file://'' @ file) st of Inl e \<Rightarrow> st | Inr st1 \<Rightarrow> st1)
      else st)"

text \<open>
  \<open>performRenameAtPosition\<close>.  \<open>projectFiles\<close> is what \<open>findProjectFiles\<close> found and
  \<open>target\<close> is \<open>path.resolve(root, filePath)\<close>.  \<open>applyWorkspaceEdit\<close>, which rewrites the
  files on the success path, is a parameter: it gives the files as it leaves them and the
  summary, or the error it throws.  \<open>tPrepare\<close> and \<open>tRename\<close> are the times at which the
  two requests go out.  The outer \<open>catch\<close> turns every thrown error into \<open>err(message)\<close>.
  The client is the active client, which is taken to exist.
\<close>

definition performRenameAtPosition ::
  "Formatter \<Rightarrow> (string \<Rightarrow> string option)
    \<Rightarrow> (Files \<Rightarrow> WorkspaceEdit \<Rightarrow> Files \<times> (JsError + RenameSymbolSuccess))
    \<Rightarrow> string list \<Rightarrow> string \<Rightarrow> nat \<Rightarrow> nat
    \<Rightarrow> RenameSymbolRequest \<Rightarrow> string \<Rightarrow> string \<Rightarrow> nat \<Rightarrow> nat \<Rightarrow> Reply \<Rightarrow> Reply
    \<Rightarrow> LSPClientState \<times> Files
    \<Rightarrow> (string + RenameSymbolSuccess) \<times> LSPClientState \<times> Files" where
  "performRenameAtPosition formatError getLanguageIdFromPath applyWorkspaceEdit
       projectFiles target tPrepare tRename request fileUri fileContent targetLine
       symbolPosition prepareReply renameReply s =
     (let files = snd s;
          st1 = fold (openProjectFile getLanguageIdFromPath files target) projectFiles (fst s)
      in (case openDocument getLanguageIdFromPath fileUri fileContent None st1 of
            Inl e \<Rightarrow> (Inl (message e), st1, files)
          | Inr st2 \<Rightarrow>
              (let position = Position targetLine symbolPosition;
                   (prepareResult, st3) =
                      prepareRename formatError tPrepare fileUri position prepareReply st2
               in if prepareResult = NullResult then
                    (Inl (''Cannot rename symbol at line '' @ showNat (targetLine + 1)
                            @ '', column '' @ showNat (symbolPosition + 1)), st3, files)
                  else
                    (case rename formatError tRename fileUri position (rn_newName request)
                            renameReply st3 of
                       (Rejected e, st4) \<Rightarrow>
                         if code e = Some (- 32601)
                            \<or> str_includes (message e) ''Unhandled method''
                            \<or> str_includes (message e) ''Method not found''
                         then (Inl (''LSP server doesn'' @ [CHR 0x27]
                                      @ ''t support rename operation''), st4, files)
                         else (Inl (message e), st4, files)
                     | (Resolved r, st4) \<Rightarrow>
                         if r = NullResult then
                           (Inl ''No changes from LSP rename operation'', st4, files)
                         else
                           (case applyWorkspaceEdit files
                                   (case r of WorkspaceEditResult edit \<Rightarrow> edit | _ \<Rightarrow> []) of
                              (files1, Inl e) \<Rightarrow> (Inl (message e), st4, files1)
                            | (files1, Inr summary) \<Rightarrow>
                                (case closeDocument fileUri st4 of
                                   Inl e \<Rightarrow> (Inl (message e), st4, files1)
                                 | Inr st5 \<Rightarrow>
                                     (Inr summary,
                                      fold (closeProjectFile target) projectFiles st5,
                                      files1)))))))"

section \<open>Vocabulary of the statements about the client\<close>

text \<open>
  What can happen to a client between two points of a run: a message comes in, a request
  timer fires, a request or a notification goes out (a notification that throws leaves the
  state as it is).
\<close>

datatype ClientStep =
    Incoming LSPMessage
  | TimerFires nat nat
  | Request nat string "Params option"
  | Notification string "Params option"

definition clientStep :: "Formatter \<Rightarrow> ClientStep \<Rightarrow> LSPClientState \<Rightarrow> LSPClientState" where
  "clientStep formatError step st =
     (case step of
        Incoming m \<Rightarrow> handleMessage formatError m st
      | TimerFires now i \<Rightarrow> timeoutFires formatError now i st
      | Request now m ps \<Rightarrow> snd (sendRequest now m ps st)
      | Notification m ps \<Rightarrow>
          (case sendNotification m ps st of Inl e \<Rightarrow> st | Inr st1 \<Rightarrow> st1))"

text \<open>The step is a response to request \<open>i\<close>, or the firing of its timer.\<close>

definition answers :: "nat \<Rightarrow> ClientStep \<Rightarrow> bool" where
  "answers i step =
     (case step of
        Incoming m \<Rightarrow> msg_id m = Some i \<and> (result m \<noteq> None \<or> error m \<noteq> None)
      | TimerFires now j \<Rightarrow> j = i
      | _ \<Rightarrow> False)"

text \<open>
  Request \<open>i\<close> is pending with the closure \<open>p\<close> in a client of language \<open>lang\<close>: its
  handler is registered, its timer is armed and its promise is not settled.
\<close>

definition pendingAt :: "nat \<Rightarrow> Pending \<Rightarrow> string \<Rightarrow> LSPClientState \<Rightarrow> bool" where
  "pendingAt i p lang st =
     (responseHandlers st i = Some p \<and> timers st i = Some p \<and> promises st i = None
      \<and> i \<le> messageId st \<and> languageId st = lang)"



text \<open>No promise is settled for a request id that has not been given out yet.\<close>

definition freshPromises :: "LSPClientState \<Rightarrow> bool" where
  "freshPromises st = (\<forall>i. messageId st < i \<longrightarrow> promises st i = None)"

text \<open>A range of zero width: start and end are the same position.\<close>

definition emptyRange :: "Range \<Rightarrow> bool" where
  "emptyRange r = (range_start r = range_end r)"

text \<open>The \<open>textDocument/publishDiagnostics\<close> notification for a URI.\<close>

definition publishDiagnostics :: "string \<Rightarrow> Diagnostic option list \<Rightarrow> LSPMessage" where
  "publishDiagnostics u ds =
     \<lparr>msg_id = None, msg_method = Some ''textDocument/publishDiagnostics'',
      params = Some (PublishDiagnosticsParams u ds), result = None, error = None\<rparr>"

text \<open>The \<open>textDocument/didOpen\<close> notification that \<open>openDocument\<close> writes.\<close>

definition didOpen :: "string \<Rightarrow> string \<Rightarrow> string \<Rightarrow> LSPMessage" where
  "didOpen u lang text =
     \<lparr>msg_id = None, msg_method = Some ''textDocument/didOpen'',
      params = Some (DidOpenTextDocumentParams u lang 1 text), result = None, error = None\<rparr>"

definition didClose :: "string \<Rightarrow> LSPMessage" where
  "didClose u =
     \<lparr>msg_id = None, msg_method = Some ''textDocument/didClose'',
      params = Some (DidCloseTextDocumentParams u), result = None, error = None\<rparr>"


section \<open>Concrete inputs\<close>

text \<open>
  A small project rooted at \<open>/r\<close>: the file \<open>a\<close> declares two symbols side by side on
  line 0 (the first ends at character 4, where the second starts), and the file \<open>n\<close>
  holds one symbol of an external library.  Path resolution
  and URL formation are the plain POSIX ones.
\<close>

definition ex_resolve :: "string \<Rightarrow> string \<Rightarrow> string" where
  "ex_resolve root p = root @ ''/'' @ p"

definition ex_url :: "string \<Rightarrow> string" where
  "ex_url p = ''file://'' @ p"

definition symA :: SymbolEntry where
  "symA = SymbolEntry ''f'' 12 (Location ''file:///r/a'' (Range (Position 0 0) (Position 0 4)))
            None None None None None None"

definition symB :: SymbolEntry where
  "symB = SymbolEntry ''g'' 12 (Location ''file:///r/a'' (Range (Position 0 4) (Position 0 8)))
            None None None None None None"

definition symX :: SymbolEntry where
  "symX = SymbolEntry ''ok'' 12 (Location ''file:///r/n'' (Range (Position 0 0) (Position 0 2)))
            None None None None (Some True) (Some ''lib'')"

definition emptyIndex :: SymbolIndexState where
  "emptyIndex = \<lparr>fileIndex = [], symbolIndex = [], kindIndex = [], containerIndex = [],
     fileWatchers = [], closedWatchers = [], rootPath = ''/r'',
     stats = \<lparr>totalFiles = 0, totalSymbols = 0\<rparr>, emitted = []\<rparr>"

definition ex_index :: SymbolIndexState where
  "ex_index =
     addSymbolsToIndices
       (emptyIndex\<lparr>fileIndex :=
          [(''file:///r/a'', \<lparr>fs_uri = ''file:///r/a'', lastModified = 0, symbols = [symA, symB]\<rparr>),
           (''file:///r/n'', \<lparr>fs_uri = ''file:///r/n'', lastModified = 0, symbols = [symX]\<rparr>)],
          fileWatchers := [''/r/a'']\<rparr>)
       [symA, symB, symX]"

definition noQuery :: SymbolQuery where
  "noQuery = \<lparr>q_name = None, q_kind = None, q_file = None, q_containerName = None,
     includeChildren = None, includeExternal = None, onlyExternal = None, q_sourceLibrary = None\<rparr>"

text \<open>
  A formatter that puts the operation in front of the message, a language detection that
  knows no extension, and a diagnostic of zero width.
\<close>

definition ex_fmt :: Formatter where
  "ex_fmt e ctx = operation ctx @ '': '' @ message e"

definition ex_lang :: "string \<Rightarrow> string option" where
  "ex_lang u = None"

definition zeroWidth :: Diagnostic where
  "zeroWidth = Diagnostic (Some (Range (Position 3 7) (Position 3 7))) (Some 1) ''expected ;''"

definition noRange :: Diagnostic where
  "noRange = Diagnostic None (Some 1) ''broken''"




text \<open>
  A \<open>find_references\<close> request for the symbol \<open>f\<close> on line 1 of the file \<open>a\<close>, a
  \<open>rename_symbol\<close> request for it, the project files on disk, and the answer of a server
  that does not implement \<open>textDocument/rename\<close>.
\<close>

definition refRequest :: FindReferencesRequest where
  "refRequest = \<lparr>fr_root = ''/r'', fr_filePath = ''a'', fr_line = LineNumber 1, fr_symbolName = ''f''\<rparr>"

definition renameRequest :: RenameSymbolRequest where
  "renameRequest = \<lparr>rn_root = ''/r'', rn_filePath = ''a'', rn_target = ''f'', rn_newName = ''h''\<rparr>"

definition diskFiles :: Files where
  "diskFiles = [''/r/a'' \<mapsto> ''f()'', ''/r/b'' \<mapsto> ''f()'']"

text \<open>An edit applier that rewrites the file \<open>a\<close> whenever it is called.\<close>

definition ex_applyWorkspaceEdit :: "Files \<Rightarrow> WorkspaceEdit \<Rightarrow> Files \<times> (JsError + RenameSymbolSuccess)" where
  "ex_applyWorkspaceEdit files edit =
     (files(''/r/a'' \<mapsto> ''h()''),
      Inr (''Successfully renamed symbol in 1 file(s) with 1 change(s)'',
           [(''/r/a'', [(1, 1, ''f'', ''h'')])]))"

definition methodNotFound :: ResponseError where
  "methodNotFound = ResponseError (- 32601) ''Method not found''"

text \<open>
  A \<open>workspace/symbol\<close> request, and \<open>JSON.stringify\<close> on the messages of that shape (the
  members \<open>jsonrpc\<close>, \<open>id\<close>, \<open>method\<close> and the query, in this order; the strings involved
  need no escaping).  \<open>ex_parse\<close> reads the one text it knows.
\<close>

definition symbolQuery :: "string \<Rightarrow> LSPMessage" where
  "symbolQuery q = \<lparr>msg_id = Some 1, msg_method = Some ''workspace/symbol'',
      params = Some (WorkspaceSymbolParams q), result = None, error = None\<rparr>"

definition ex_stringify :: "LSPMessage \<Rightarrow> jsstring" where
  \<open>ex_stringify m =
     js ''{"jsonrpc":"2.0"''
     @ (case msg_id m of None \<Rightarrow> [] | Some i \<Rightarrow> js '',"id":'' @ numberToString i)
     @ (case msg_method m of None \<Rightarrow> [] | Some x \<Rightarrow> js '',"method":"'' @ js x @ js ''"'')
     @ (case params m of
          Some (WorkspaceSymbolParams q) \<Rightarrow> js '',"params":{"query":"'' @ js q @ js ''"}''
        | _ \<Rightarrow> [])
     @ js ''}''\<close>

definition ex_parse :: "jsstring \<Rightarrow> LSPMessage option" where
  "ex_parse body =
     (if body = ex_stringify (symbolQuery ''e'') then Some (symbolQuery ''e'') else None)"

section \<open>Properties of the symbol index\<close>

subsection \<open>The example index\<close>

lemma ex_index_eq:
  "ex_index = \<lparr>fileIndex =
          [(''file:///r/a'', \<lparr>fs_uri = ''file:///r/a'', lastModified = 0, symbols = [symA, symB]\<rparr>),
           (''file:///r/n'', \<lparr>fs_uri = ''file:///r/n'', lastModified = 0, symbols = [symX]\<rparr>)],
      symbolIndex = [(''f'', [symA]), (''g'', [symB]), (''ok'', [symX])],
      kindIndex = [(12, [symA, symB, symX])], containerIndex = [],
      fileWatchers = [''/r/a''], closedWatchers = [], rootPath = ''/r'',
      stats = \<lparr>totalFiles = 0, totalSymbols = 0\<rparr>, emitted = []\<rparr>"
  by (simp add: ex_index_def emptyIndex_def symA_def symB_def symX_def addOne_def push_entry_def
        get_or_empty_def)

lemma ex_remove:
  "removeFileFromIndex ex_resolve ex_url ex_index ''a'' =
     \<lparr>fileIndex = [(''file:///r/n'', \<lparr>fs_uri = ''file:///r/n'', lastModified = 0, symbols = [symX]\<rparr>)],
      symbolIndex = [(''ok'', [symX])],
      kindIndex = [(12, [symX])], containerIndex = [],
      fileWatchers = [], closedWatchers = [''/r/a''], rootPath = ''/r'',
      stats = \<lparr>totalFiles = 1, totalSymbols = 1\<rparr>, emitted = [FileRemoved ''file:///r/a'']\<rparr>"
  by (simp add: ex_index_eq removeFileFromIndex_def clearFileFromIndices_def clearFromMap_def
        clearStep_def updateStats_def ex_resolve_def ex_url_def symA_def symB_def symX_def Let_def)


lemma ex_query_all: "querySymbols ex_resolve ex_url id ex_index noQuery = [symA, symB, symX]"
  by (simp add: ex_index_eq querySymbols_def initialResults_def plainFilters_def externalFilter_def
       finalSteps_def noQuery_def truthy_string_def truthy_kind_def truthy_bool_def
       symA_def symB_def symX_def Let_def)

lemma ex_query_internal:
  "querySymbols ex_resolve ex_url id ex_index (noQuery\<lparr>includeExternal := Some False\<rparr>) = [symA, symB]"
  by (simp add: ex_index_eq querySymbols_def initialResults_def plainFilters_def externalFilter_def
       finalSteps_def noQuery_def truthy_string_def truthy_kind_def truthy_bool_def
       symA_def symB_def symX_def Let_def)

subsection \<open>Removing a file\<close>

text \<open>
  On a map with distinct keys the walk of \<open>clearFromMap\<close> rewrites every entry in place:
  the keys whose filtered list is empty go, the others keep their position.
\<close>

lemma clearStep_fold:
  "distinct (map fst (pre @ xs)) \<Longrightarrow>
   fold (clearStep u) xs (pre @ xs) =
     pre @ List.map_filter (\<lambda>ke. let f = filter (\<lambda>e. uri (location e) \<noteq> u) (snd ke)
                                   in if f = [] then None else Some (fst ke, f)) xs"
proof (induction xs arbitrary: pre)
  case Nil
  then show ?case by (simp add: map_filter_simps)
next
  case (Cons x xs)
  obtain k es where x: "x = (k, es)" by (cases x)
  let ?f = "filter (\<lambda>e. uri (location e) \<noteq> u) es"
  from Cons.prems have kpre: "k \<notin> fst ` set pre" and kxs: "k \<notin> fst ` set xs"
    and dpre: "distinct (map fst (pre @ xs))"
    by (auto simp: x)
  show ?case
  proof (cases "?f = []")
    case True
    have "AList.delete k (pre @ (k, es) # xs) = pre @ xs"
      using kpre kxs by (induction pre) (auto simp: AList.delete_id)
    with True Cons.IH[OF dpre] show ?thesis
      by (simp add: x clearStep_def map_filter_simps)
  next
    case False
    have upd: "AList.update k ?f (pre @ (k, es) # xs) = (pre @ [(k, ?f)]) @ xs"
      using kpre by (induction pre) auto
    have d2: "distinct (map fst ((pre @ [(k, ?f)]) @ xs))"
      using Cons.prems by (auto simp: x)
    from False Cons.IH[OF d2] upd show ?thesis
      by (simp add: x clearStep_def map_filter_simps)
  qed
qed

lemma clearFromMap_eq:
  "distinct (map fst m) \<Longrightarrow>
   clearFromMap u m =
     List.map_filter (\<lambda>ke. let f = filter (\<lambda>e. uri (location e) \<noteq> u) (snd ke)
                            in if f = [] then None else Some (fst ke, f)) m"
  using clearStep_fold[of "[]" m u] by (simp add: clearFromMap_def)

lemma clearFromMap_clean:
  assumes "distinct (map fst m)" and "(k, es) \<in> set (clearFromMap u m)" and "e \<in> set es"
  shows "uri (location e) \<noteq> u"
  using assms by (auto simp: clearFromMap_eq map_filter_def Let_def split: if_splits)

lemma clearFromMap_all:
  "distinct (map fst m) \<Longrightarrow>
   \<forall>(k, es) \<in> set (clearFromMap u m). \<forall>e \<in> set es. uri (location e) \<noteq> u"
  using clearFromMap_clean by fast

lemma removeFileFromIndex_fields:
  "symbolIndex (removeFileFromIndex R U st p) = clearFromMap (U (R (rootPath st) p)) (symbolIndex st)"
  "kindIndex (removeFileFromIndex R U st p) = clearFromMap (U (R (rootPath st) p)) (kindIndex st)"
  "containerIndex (removeFileFromIndex R U st p) = clearFromMap (U (R (rootPath st) p)) (containerIndex st)"
  "fileIndex (removeFileFromIndex R U st p) = AList.delete (U (R (rootPath st) p)) (fileIndex st)"
  by (simp_all add: removeFileFromIndex_def clearFileFromIndices_def updateStats_def Let_def)

text \<open>
  C8.  After \<open>removeFileFromIndex\<close> of a path, no entry of the name index, the kind index
  or the container index has the URI of that path as its location, and the file index has
  no record under that URI.  The three maps have distinct keys, as every JavaScript
  \<open>Map\<close> has.
\<close>

theorem removeFileFromIndex_clears_uri:
  assumes "distinct (map fst (symbolIndex st))"
    and "distinct (map fst (kindIndex st))"
    and "distinct (map fst (containerIndex st))"
  shows "(\<forall>(k, es) \<in> set (symbolIndex (removeFileFromIndex R U st p)).
            \<forall>e \<in> set es. uri (location e) \<noteq> U (R (rootPath st) p))
       \<and> (\<forall>(k, es) \<in> set (kindIndex (removeFileFromIndex R U st p)).
            \<forall>e \<in> set es. uri (location e) \<noteq> U (R (rootPath st) p))
       \<and> (\<forall>(k, es) \<in> set (containerIndex (removeFileFromIndex R U st p)).
            \<forall>e \<in> set es. uri (location e) \<noteq> U (R (rootPath st) p))
       \<and> map_of (fileIndex (removeFileFromIndex R U st p)) (U (R (rootPath st) p)) = None"
proof -
  have "map_of (AList.delete (U (R (rootPath st) p)) (fileIndex st)) (U (R (rootPath st) p)) = None"
    by (simp add: AList.delete_conv')
  then show ?thesis
    using assms by (simp add: removeFileFromIndex_fields clearFromMap_all)
qed

theorem removeFileFromIndex_clears_uri_witness:
  "distinct (map fst (symbolIndex ex_index))
   \<and> distinct (map fst (kindIndex ex_index))
   \<and> distinct (map fst (containerIndex ex_index))
   \<and> symbolIndex ex_index = [(''f'', [symA]), (''g'', [symB]), (''ok'', [symX])]
   \<and> symbolIndex (removeFileFromIndex ex_resolve ex_url ex_index ''a'') = [(''ok'', [symX])]
   \<and> list_all (\<lambda>ke. list_all (\<lambda>e. uri (location e) \<noteq> ''file:///r/a'') (snd ke))
        (kindIndex (removeFileFromIndex ex_resolve ex_url ex_index ''a''))
   \<and> map_of (fileIndex (removeFileFromIndex ex_resolve ex_url ex_index ''a'')) ''file:///r/a'' = None"
proof -
  have d: "distinct (map fst (symbolIndex ex_index))" "distinct (map fst (kindIndex ex_index))"
    "distinct (map fst (containerIndex ex_index))"
    by (simp_all add: ex_index_eq)
  have u: "ex_url (ex_resolve (rootPath ex_index) ''a'') = ''file:///r/a''"
    by (simp add: ex_index_eq ex_url_def ex_resolve_def)
  from removeFileFromIndex_clears_uri[OF d, of ex_resolve ex_url "''a''"] d show ?thesis
    unfolding u by (simp add: ex_remove list_all_iff) (simp add: ex_index_eq)
qed

subsection \<open>Symbol at a position\<close>









subsection \<open>The external-library filter\<close>

lemma externalFilter_skipped:
  "\<not> truthy_bool (onlyExternal q) \<Longrightarrow> includeExternal q \<noteq> Some False \<Longrightarrow> externalFilter q r = r"
  by (simp add: externalFilter_def)

lemma externalFilter_false:
  "\<not> truthy_bool (onlyExternal q) \<Longrightarrow> includeExternal q = Some False \<Longrightarrow>
   s \<in> set (externalFilter q r) \<Longrightarrow> isExternal s \<noteq> Some True"
  by (simp add: externalFilter_def)

lemma finalSteps_subset:
  "\<not> truthy_bool (includeChildren q) \<Longrightarrow> set (finalSteps q r) \<subseteq> set r"
  by (auto simp: finalSteps_def Let_def)

text \<open>
  C7, as the code has it.  Without \<open>onlyExternal\<close>: a query that leaves \<open>includeExternal\<close>
  unspecified skips the external filter altogether, so external entries stay in the result;
  entries carrying the external flag are removed only when \<open>includeExternal\<close> is
  explicitly \<open>false\<close> (the children appended afterwards by \<open>includeChildren\<close> are not
  filtered).
\<close>

theorem includeExternal_unspecified_keeps_external:
  assumes "\<not> truthy_bool (onlyExternal q)"
  shows "(includeExternal q = None \<longrightarrow>
            querySymbols R U L st q
              = finalSteps q (plainFilters R U st q (initialResults L st q)))
       \<and> (includeExternal q = Some False \<and> \<not> truthy_bool (includeChildren q) \<longrightarrow>
            (\<forall>s \<in> set (querySymbols R U L st q). isExternal s \<noteq> Some True))"
proof -
  have "includeExternal q = Some False \<Longrightarrow> \<not> truthy_bool (includeChildren q) \<Longrightarrow>
        s \<in> set (querySymbols R U L st q) \<Longrightarrow> isExternal s \<noteq> Some True" for s
    unfolding querySymbols_def using assms finalSteps_subset externalFilter_false by blast
  then show ?thesis
    using assms by (auto simp: querySymbols_def externalFilter_skipped)
qed

theorem includeExternal_unspecified_keeps_external_witness:
  "\<not> truthy_bool (onlyExternal noQuery)
   \<and> includeExternal noQuery = None
   \<and> querySymbols ex_resolve ex_url id ex_index noQuery = [symA, symB, symX]
   \<and> finalSteps noQuery (plainFilters ex_resolve ex_url ex_index noQuery (initialResults id ex_index noQuery))
       = [symA, symB, symX]
   \<and> querySymbols ex_resolve ex_url id ex_index (noQuery\<lparr>includeExternal := Some False\<rparr>) = [symA, symB]"
proof -
  have a: "\<not> truthy_bool (onlyExternal noQuery)"
    by (simp add: noQuery_def truthy_bool_def)
  have b: "includeExternal noQuery = None"
    by (simp add: noQuery_def)
  from includeExternal_unspecified_keeps_external[OF a, of ex_resolve ex_url id ex_index] a b
  show ?thesis
    by (simp add: ex_query_all ex_query_internal)
qed

text \<open>
  The claim as worded fails on the query with no field set: the external symbol of the
  example index is returned.
\<close>

theorem includeExternal_unspecified_returns_external:
  "includeExternal noQuery = None
   \<and> onlyExternal noQuery = None
   \<and> isExternal symX = Some True
   \<and> symX \<in> set (querySymbols ex_resolve ex_url id ex_index noQuery)"
  by (simp add: ex_query_all) (simp add: noQuery_def symX_def)

section \<open>Properties of the client\<close>

subsection \<open>Basic facts\<close>

lemma settle_fields [simp]:
  "process (settle i out st) = process st"
  "messageId (settle i out st) = messageId st"
  "responseHandlers (settle i out st) = responseHandlers st"
  "timers (settle i out st) = timers st"
  "diagnostics (settle i out st) = diagnostics st"
  "openDocuments (settle i out st) = openDocuments st"
  "languageId (settle i out st) = languageId st"
  "stdin (settle i out st) = stdin st"
  "events (settle i out st) = events st"
  by (simp_all add: settle_def split: option.splits)

lemma settle_promises:
  "promises (settle i out st) j =
     (if j = i then (case promises st i of None \<Rightarrow> Some out | Some v \<Rightarrow> Some v)
      else promises st j)"
  by (simp add: settle_def split: option.splits)

lemma sendNotification_ok:
  "process st \<Longrightarrow>
   sendNotification m ps st
     = Inr (st\<lparr>stdin := stdin st @ [\<lparr>msg_id = None, msg_method = Some m, params = ps,
                                      result = None, error = None\<rparr>]\<rparr>)"
  by (simp add: sendNotification_def sendMessage_def)

lemma sendNotification_fail:
  "\<not> process st \<Longrightarrow> sendNotification m ps st = Inl (JsError ''LSP server not started'' None)"
  by (simp add: sendNotification_def sendMessage_def)

lemma createLSPClient_fresh: "freshPromises (createLSPClient lang)"
  by (simp add: freshPromises_def createLSPClient_def)

subsection \<open>Diagnostics\<close>

lemma validDiagnostics_set:
  "d \<in> set (validDiagnostics ds) \<longleftrightarrow> Some d \<in> set ds \<and> diag_range d \<noteq> None"
  by (induction ds) (auto simp: validDiagnostics_def map_filter_simps split: option.splits)

lemma handleMessage_publishDiagnostics:
  "handleMessage fmt (publishDiagnostics u ds) st =
     st\<lparr>diagnostics := (diagnostics st)(u \<mapsto> validDiagnostics ds),
        events := events st @ [DiagnosticsEvent u (validDiagnostics ds),
                               MessageEvent (publishDiagnostics u ds)]\<rparr>"
  by (simp add: handleMessage_def publishDiagnostics_def truthy_string_def Let_def)

text \<open>
  C5, as the code has it.  After a \<open>textDocument/publishDiagnostics\<close> notification the
  snapshot stored for the URI and the list in the diagnostics event are the same list:
  the diagnostics of the notification that are not null and have a \<open>range\<close> property.  A
  diagnostic without a range is dropped from both; the width of the range plays no role.
\<close>

theorem diagnostics_without_range_are_dropped:
  "getDiagnostics u (handleMessage fmt (publishDiagnostics u ds) st) = validDiagnostics ds
   \<and> events (handleMessage fmt (publishDiagnostics u ds) st)
       = events st @ [DiagnosticsEvent u (validDiagnostics ds),
                      MessageEvent (publishDiagnostics u ds)]
   \<and> (\<forall>d. d \<in> set (validDiagnostics ds) \<longleftrightarrow> Some d \<in> set ds \<and> diag_range d \<noteq> None)"
  by (simp add: handleMessage_publishDiagnostics getDiagnostics_def validDiagnostics_set)

theorem diagnostics_without_range_are_dropped_witness:
  "getDiagnostics ''file:///r/a''
     (handleMessage ex_fmt (publishDiagnostics ''file:///r/a'' [Some noRange, None, Some zeroWidth])
        (createLSPClient None))
     = [zeroWidth]
   \<and> validDiagnostics [Some noRange, None, Some zeroWidth] = [zeroWidth]
   \<and> diag_range noRange = None"
  using diagnostics_without_range_are_dropped
          [of "''file:///r/a''" ex_fmt "[Some noRange, None, Some zeroWidth]" "createLSPClient None"]
  by (simp add: validDiagnostics_def map_filter_simps noRange_def zeroWidth_def)

text \<open>
  The claim as worded fails for a range that is empty in the usual sense (start equal to
  end): such a diagnostic is stored and delivered.
\<close>

theorem empty_range_diagnostic_is_kept:
  "diag_range zeroWidth = Some (Range (Position 3 7) (Position 3 7))
   \<and> emptyRange (Range (Position 3 7) (Position 3 7))
   \<and> getDiagnostics ''file:///r/a''
       (handleMessage ex_fmt (publishDiagnostics ''file:///r/a'' [Some zeroWidth])
          (createLSPClient None))
       = [zeroWidth]
   \<and> events (handleMessage ex_fmt (publishDiagnostics ''file:///r/a'' [Some zeroWidth])
               (createLSPClient None))
       = [DiagnosticsEvent ''file:///r/a'' [zeroWidth],
          MessageEvent (publishDiagnostics ''file:///r/a'' [Some zeroWidth])]"
  by (simp add: handleMessage_publishDiagnostics getDiagnostics_def validDiagnostics_def
        map_filter_simps zeroWidth_def emptyRange_def createLSPClient_def)

subsection \<open>Opening and closing documents\<close>

text \<open>
  C6, as the code has it.  \<open>openDocument\<close> does not look at the open set.  On a document
  that is already open it succeeds while the server process is attached: it writes
  another \<open>textDocument/didOpen\<close> with version 1 and leaves the open set as it is.  It
  fails only when the process is gone, with "LSP server not started".
\<close>

theorem openDocument_on_open_document:
  assumes "u \<in> openDocuments st"
  shows "(process st \<longrightarrow>
            (\<exists>st1 l. openDocument g u text lang st = Inr st1
                \<and> openDocuments st1 = openDocuments st
                \<and> stdin st1 = stdin st @ [didOpen u l text]))
       \<and> (\<not> process st \<longrightarrow>
            openDocument g u text lang st = Inl (JsError ''LSP server not started'' None))"
  using assms
  by (auto simp: openDocument_def sendNotification_ok sendNotification_fail Let_def didOpen_def)

lemma openDocument_example:
  "openDocument ex_lang ''file:///r/a'' ''x'' None (createLSPClient None)
     = Inr ((createLSPClient None)\<lparr>stdin := [didOpen ''file:///r/a'' ''plaintext'' ''x''],
                                   openDocuments := {''file:///r/a''}\<rparr>)"
  by (simp add: openDocument_def sendNotification_def sendMessage_def createLSPClient_def
        didOpen_def ex_lang_def truthy_string_def)

lemma openDocument_example_again:
  "openDocument ex_lang ''file:///r/a'' ''x'' None
     ((createLSPClient None)\<lparr>stdin := [didOpen ''file:///r/a'' ''plaintext'' ''x''],
                              openDocuments := {''file:///r/a''}\<rparr>)
     = Inr ((createLSPClient None)
              \<lparr>stdin := [didOpen ''file:///r/a'' ''plaintext'' ''x'',
                         didOpen ''file:///r/a'' ''plaintext'' ''x''],
               openDocuments := {''file:///r/a''}\<rparr>)"
  by (simp add: openDocument_def sendNotification_def sendMessage_def createLSPClient_def
        didOpen_def ex_lang_def truthy_string_def)

theorem openDocument_on_open_document_witness:
  "''file:///r/a'' \<in> openDocuments
       ((createLSPClient None)\<lparr>stdin := [didOpen ''file:///r/a'' ''plaintext'' ''x''],
                                openDocuments := {''file:///r/a''}\<rparr>)
   \<and> process ((createLSPClient None)\<lparr>stdin := [didOpen ''file:///r/a'' ''plaintext'' ''x''],
                                      openDocuments := {''file:///r/a''}\<rparr>)
   \<and> openDocument ex_lang ''file:///r/a'' ''x'' None
       ((createLSPClient None)\<lparr>stdin := [didOpen ''file:///r/a'' ''plaintext'' ''x''],
                                openDocuments := {''file:///r/a''}\<rparr>)
       = Inr ((createLSPClient None)
                \<lparr>stdin := [didOpen ''file:///r/a'' ''plaintext'' ''x'',
                           didOpen ''file:///r/a'' ''plaintext'' ''x''],
                 openDocuments := {''file:///r/a''}\<rparr>)"
proof -
  let ?s = "(createLSPClient None)\<lparr>stdin := [didOpen ''file:///r/a'' ''plaintext'' ''x''],
                                   openDocuments := {''file:///r/a''}\<rparr>"
  have a: "''file:///r/a'' \<in> openDocuments ?s" by simp
  have p: "process ?s" by (simp add: createLSPClient_def)
  from openDocument_on_open_document[OF a, of ex_lang "''x''" None] a p show ?thesis
    by (simp add: openDocument_example_again)
qed

text \<open>
  The claim as worded fails on a fresh client: the second \<open>open\<close> of the same URI
  succeeds, and two \<open>didOpen\<close> notifications for it have been written with no
  \<open>didClose\<close> in between.
\<close>

theorem openDocument_twice_succeeds:
  "openDocument ex_lang ''file:///r/a'' ''x'' None (createLSPClient None)
     = Inr ((createLSPClient None)\<lparr>stdin := [didOpen ''file:///r/a'' ''plaintext'' ''x''],
                                   openDocuments := {''file:///r/a''}\<rparr>)
   \<and> isDocumentOpen ''file:///r/a''
       ((createLSPClient None)\<lparr>stdin := [didOpen ''file:///r/a'' ''plaintext'' ''x''],
                                openDocuments := {''file:///r/a''}\<rparr>)
   \<and> openDocument ex_lang ''file:///r/a'' ''x'' None
       ((createLSPClient None)\<lparr>stdin := [didOpen ''file:///r/a'' ''plaintext'' ''x''],
                                openDocuments := {''file:///r/a''}\<rparr>)
       = Inr ((createLSPClient None)
                \<lparr>stdin := [didOpen ''file:///r/a'' ''plaintext'' ''x'',
                           didOpen ''file:///r/a'' ''plaintext'' ''x''],
                 openDocuments := {''file:///r/a''}\<rparr>)"
  by (simp add: openDocument_example openDocument_example_again isDocumentOpen_def)

text \<open>
  C10, as the code has it.  While the server process is attached, \<open>closeDocument\<close>
  succeeds for every URI, opened or not, and a second call leaves the open set and the
  diagnostics map as the first call left them.  When the process is gone it throws
  "LSP server not started" (and changes nothing).
\<close>

theorem closeDocument_idempotent_while_attached:
  "(process st \<longrightarrow>
      (\<exists>s1 s2. closeDocument u st = Inr s1 \<and> closeDocument u s1 = Inr s2
         \<and> openDocuments s2 = openDocuments s1 \<and> diagnostics s2 = diagnostics s1
         \<and> u \<notin> openDocuments s1 \<and> diagnostics s1 u = None))
   \<and> (\<not> process st \<longrightarrow> closeDocument u st = Inl (JsError ''LSP server not started'' None))"
  by (auto simp: closeDocument_def sendNotification_ok sendNotification_fail Let_def)

lemma closeDocument_example:
  "closeDocument ''file:///r/a'' (createLSPClient None)
     = Inr ((createLSPClient None)\<lparr>stdin := [didClose ''file:///r/a'']\<rparr>)"
  by (simp add: closeDocument_def sendNotification_def sendMessage_def createLSPClient_def
        didClose_def)

theorem closeDocument_idempotent_while_attached_witness:
  "process (createLSPClient None)
   \<and> ''file:///r/a'' \<notin> openDocuments (createLSPClient None)
   \<and> closeDocument ''file:///r/a'' (createLSPClient None)
       = Inr ((createLSPClient None)\<lparr>stdin := [didClose ''file:///r/a'']\<rparr>)
   \<and> closeDocument ''file:///r/a'' (onExit (createLSPClient None))
       = Inl (JsError ''LSP server not started'' None)"
  using closeDocument_idempotent_while_attached[of "createLSPClient None" "''file:///r/a''"]
    closeDocument_idempotent_while_attached[of "onExit (createLSPClient None)" "''file:///r/a''"]
  by (simp add: closeDocument_example) (simp add: createLSPClient_def onExit_def)

text \<open>
  The claim as worded fails after the server process has exited: \<open>closeDocument\<close> throws.
\<close>

theorem closeDocument_fails_after_exit:
  "process (onExit (createLSPClient None)) = False
   \<and> closeDocument ''file:///r/a'' (onExit (createLSPClient None))
       = Inl (JsError ''LSP server not started'' None)"
  by (simp add: closeDocument_def sendNotification_def sendMessage_def onExit_def)

subsection \<open>Request time-outs\<close>

lemma sendRequest_pending:
  assumes "process st" and "freshPromises st" and "sendRequest t m ps st = (i, st1)"
  shows "i = messageId st + 1
       \<and> pendingAt i \<lparr>p_method = m, p_params = ps, deadline = t + 30000\<rparr> (languageId st) st1"
  using assms
  by (auto simp: sendRequest_def sendMessage_def Let_def pendingAt_def freshPromises_def)

lemma handleMessage_pending:
  assumes "pendingAt i p lang st" and "\<not> answers i (Incoming m)"
  shows "pendingAt i p lang (handleMessage fmt m st)"
proof (cases "msg_id m \<noteq> None \<and> (result m \<noteq> None \<or> error m \<noteq> None)")
  case True
  then obtain j where j: "msg_id m = Some j" by auto
  with True assms(2) have ne: "j \<noteq> i" by (auto simp: answers_def)
  show ?thesis
    using True assms(1) ne j
    by (auto simp: handleMessage_def responseHandler_def Let_def pendingAt_def settle_promises
        split: option.splits)
next
  case False
  then show ?thesis
    using assms(1)
    by (auto simp: handleMessage_def Let_def pendingAt_def split: option.splits Params.splits)
qed

lemma timeoutFires_pending:
  assumes "pendingAt i p lang st" and "j \<noteq> i"
  shows "pendingAt i p lang (timeoutFires fmt now j st)"
  using assms
  by (auto simp: timeoutFires_def Let_def pendingAt_def settle_promises split: option.splits)

lemma sendRequest_keeps_pending:
  assumes "pendingAt i p lang st"
  shows "pendingAt i p lang (snd (sendRequest now m ps st))"
  using assms
  by (auto simp: sendRequest_def sendMessage_def Let_def pendingAt_def settle_promises
      split: option.splits)

lemma clientStep_pending:
  assumes "pendingAt i p lang st" and "\<not> answers i step"
  shows "pendingAt i p lang (clientStep fmt step st)"
proof (cases step)
  case (Incoming m)
  with assms handleMessage_pending show ?thesis by (simp add: clientStep_def)
next
  case (TimerFires now j)
  with assms timeoutFires_pending[of i p lang st j] show ?thesis
    by (simp add: clientStep_def answers_def)
next
  case (Request now m ps)
  with assms sendRequest_keeps_pending show ?thesis by (simp add: clientStep_def)
next
  case (Notification m ps)
  with assms show ?thesis
    by (auto simp: clientStep_def sendNotification_def sendMessage_def pendingAt_def)
qed

lemma run_pending:
  "pendingAt i p lang st \<Longrightarrow> list_all (\<lambda>e. \<not> answers i e) es \<Longrightarrow>
   pendingAt i p lang (fold (clientStep fmt) es st)"
  by (induction es arbitrary: st) (auto simp: clientStep_pending)

lemma timeoutFires_at_deadline:
  assumes "pendingAt i p lang st" and "deadline p \<le> now"
  shows "responseHandlers (timeoutFires fmt now i st) i = None
       \<and> timers (timeoutFires fmt now i st) i = None
       \<and> promises (timeoutFires fmt now i st) i = Some (Rejected (timeoutError fmt lang p))"
  using assms by (auto simp: timeoutFires_def Let_def pendingAt_def settle_promises)

lemma timeoutFires_early:
  assumes "pendingAt i p lang st" and "now < deadline p"
  shows "timeoutFires fmt now i st = st"
  using assms by (auto simp: timeoutFires_def pendingAt_def)

text \<open>
  The timer that \<open>sendRequest\<close> arms is 30000 ms for every language.  As long as neither
  a response to the request nor its timer comes, the entry stays in the map of response
  handlers; a timer event before \<open>t + 30000\<close> does nothing, and the timer event at or
  after it deletes the entry and rejects the promise.
\<close>

lemma request_timer_is_30_seconds:
  assumes "process st" and "freshPromises st"
    and "sendRequest t m ps st = (i, st1)"
    and "list_all (\<lambda>e. \<not> answers i e) es"
    and "t + 30000 \<le> now"
  shows "responseHandlers (fold (clientStep fmt) es st1) i
           = Some \<lparr>p_method = m, p_params = ps, deadline = t + 30000\<rparr>
       \<and> (\<forall>early. early < t + 30000 \<longrightarrow>
             timeoutFires fmt early i (fold (clientStep fmt) es st1)
               = fold (clientStep fmt) es st1)
       \<and> responseHandlers (timeoutFires fmt now i (fold (clientStep fmt) es st1)) i = None
       \<and> promises (timeoutFires fmt now i (fold (clientStep fmt) es st1)) i
           = Some (Rejected (timeoutError fmt (languageId st)
                               \<lparr>p_method = m, p_params = ps, deadline = t + 30000\<rparr>))"
proof -
  let ?p = "\<lparr>p_method = m, p_params = ps, deadline = t + 30000\<rparr>"
  from sendRequest_pending[OF assms(1,2,3)]
  have "pendingAt i ?p (languageId st) st1" by blast
  then have run: "pendingAt i ?p (languageId st) (fold (clientStep fmt) es st1)"
    using assms(4) by (rule run_pending)
  from run have "responseHandlers (fold (clientStep fmt) es st1) i = Some ?p"
    by (simp add: pendingAt_def)
  moreover have "\<forall>early. early < t + 30000 \<longrightarrow>
      timeoutFires fmt early i (fold (clientStep fmt) es st1) = fold (clientStep fmt) es st1"
    using timeoutFires_early[OF run] by simp
  moreover from timeoutFires_at_deadline[OF run, of now fmt] assms(5)
  have "responseHandlers (timeoutFires fmt now i (fold (clientStep fmt) es st1)) i = None
      \<and> promises (timeoutFires fmt now i (fold (clientStep fmt) es st1)) i
          = Some (Rejected (timeoutError fmt (languageId st) ?p))"
    by simp
  ultimately show ?thesis by blast
qed












section \<open>Properties of the tool handlers\<close>

subsection \<open>What an awaited request does to the client\<close>

lemma openDocument_attached:
  "process st \<Longrightarrow>
   \<exists>st1. openDocument g u text lang st = Inr st1 \<and> process st1
     \<and> freshPromises st1 = freshPromises st
     \<and> openDocuments st1 = insert u (openDocuments st) \<and> languageId st1 = languageId st
     \<and> messageId st1 = messageId st \<and> promises st1 = promises st"
  by (simp add: openDocument_def sendNotification_ok Let_def freshPromises_def)

lemma openDocument_Inr:
  "openDocument g u text lang st = Inr st1 \<Longrightarrow>
   process st1 \<and> freshPromises st1 = freshPromises st \<and> languageId st1 = languageId st
   \<and> openDocuments st1 = insert u (openDocuments st)"
  by (auto simp: openDocument_def sendNotification_def sendMessage_def Let_def freshPromises_def
      split: if_splits)

lemma closeDocument_attached:
  "process st \<Longrightarrow>
   \<exists>st1. closeDocument u st = Inr st1 \<and> process st1 \<and> openDocuments st1 = openDocuments st - {u}"
  by (simp add: closeDocument_def sendNotification_ok Let_def)

lemma handleMessage_fields:
  "process (handleMessage fmt m st) = process st"
  "openDocuments (handleMessage fmt m st) = openDocuments st"
  "languageId (handleMessage fmt m st) = languageId st"
  "messageId (handleMessage fmt m st) = messageId st"
  by (auto simp: handleMessage_def responseHandler_def Let_def split: option.splits Params.splits)

lemma timeoutFires_fields:
  "process (timeoutFires fmt now i st) = process st"
  "openDocuments (timeoutFires fmt now i st) = openDocuments st"
  "languageId (timeoutFires fmt now i st) = languageId st"
  "messageId (timeoutFires fmt now i st) = messageId st"
  by (auto simp: timeoutFires_def Let_def split: option.splits)

lemma sendRequest_fields:
  "process (snd (sendRequest now m ps st)) = process st"
  "openDocuments (snd (sendRequest now m ps st)) = openDocuments st"
  "languageId (snd (sendRequest now m ps st)) = languageId st"
  "messageId (snd (sendRequest now m ps st)) = messageId st + 1"
  "fst (sendRequest now m ps st) = messageId st + 1"
  by (auto simp: sendRequest_def sendMessage_def Let_def split: option.splits)

lemma awaitRequest_fields:
  "process (snd (awaitRequest fmt now m ps reply st)) = process st"
  "openDocuments (snd (awaitRequest fmt now m ps reply st)) = openDocuments st"
  "languageId (snd (awaitRequest fmt now m ps reply st)) = languageId st"
  "messageId (snd (awaitRequest fmt now m ps reply st)) = messageId st + 1"
  by (auto simp: awaitRequest_def handleMessage_fields timeoutFires_fields
        sendRequest_fields split_beta Let_def split: Reply.splits option.splits)

text \<open>
  Through an attached process, and with no stale promise under the new id, the awaited
  request settles as the server's reply says: resolved with the result, rejected with the
  formatted server error, or rejected with the time-out error.
\<close>

lemma awaitRequest_outcome:
  assumes "process st" and "freshPromises st"
  shows "fst (awaitRequest fmt now m ps reply st) =
           (case reply of
              Reply r \<Rightarrow> Resolved r
            | ErrorReply e \<Rightarrow>
                Rejected (responseError fmt (languageId st)
                            \<lparr>p_method = m, p_params = ps, deadline = now + 30000\<rparr> e)
            | NoReply \<Rightarrow>
                Rejected (timeoutError fmt (languageId st)
                            \<lparr>p_method = m, p_params = ps, deadline = now + 30000\<rparr>))"
proof -
  obtain i st1 where s: "sendRequest now m ps st = (i, st1)"
    by (cases "sendRequest now m ps st")
  from sendRequest_pending[OF assms s]
  have p: "pendingAt i \<lparr>p_method = m, p_params = ps, deadline = now + 30000\<rparr> (languageId st) st1"
    by blast
  show ?thesis
  proof (cases reply)
    case (Reply r)
    with p s show ?thesis
      by (simp add: awaitRequest_def handleMessage_def responseHandler_def pendingAt_def
            settle_promises Let_def)
  next
    case (ErrorReply e)
    with p s show ?thesis
      by (simp add: awaitRequest_def handleMessage_def responseHandler_def pendingAt_def
            settle_promises Let_def)
  next
    case NoReply
    with p s timeoutFires_at_deadline[OF p, of "now + 30000" fmt] show ?thesis
      by (simp add: awaitRequest_def)
  qed
qed

lemma handleMessage_promises_other:
  "msg_id m = Some i \<Longrightarrow> j \<noteq> i \<Longrightarrow> promises (handleMessage fmt m st) j = promises st j"
  by (auto simp: handleMessage_def responseHandler_def settle_promises Let_def
      split: option.splits Params.splits)

lemma timeoutFires_promises_other:
  "j \<noteq> i \<Longrightarrow> promises (timeoutFires fmt now i st) j = promises st j"
  by (auto simp: timeoutFires_def settle_promises Let_def split: option.splits)

lemma sendRequest_promises_other:
  "j \<noteq> messageId st + 1 \<Longrightarrow> promises (snd (sendRequest now m ps st)) j = promises st j"
  by (auto simp: sendRequest_def sendMessage_def settle_promises Let_def)

lemma awaitRequest_fresh:
  assumes "freshPromises st"
  shows "freshPromises (snd (awaitRequest fmt now m ps reply st))"
proof -
  have "promises (snd (awaitRequest fmt now m ps reply st)) j = promises st j"
    if "j \<noteq> messageId st + 1" for j
    using that
    by (cases reply)
       (auto simp: awaitRequest_def split_beta Let_def sendRequest_fields
          handleMessage_promises_other timeoutFires_promises_other sendRequest_promises_other
          split: option.splits)
  then show ?thesis
    using assms by (simp add: freshPromises_def awaitRequest_fields)
qed

subsection \<open>Documents opened for an analysis\<close>

lemma findReferences_state:
  "snd (findReferences fmt now u pos reply st)
     = snd (awaitRequest fmt now ''textDocument/references''
              (Some (ReferenceParams u pos True)) reply st)"
  by (simp add: findReferences_def split: prod.splits Outcome.splits)

text \<open>
  C2 fails on \<open>find_references\<close>.  Once \<open>findReferencesWithLSP\<close> has read the file and
  found the symbol, it opens the document and never closes it: whatever the server does
  with the request (a result, an error, no answer until the time-out), the document is
  still in the open set when the handler returns.
\<close>

theorem findReferences_leaves_document_open:
  assumes "process st"
  shows "fileUri \<in> openDocuments (snd (findReferencesWithLSP fmt g toRef now request
            (Inr (fileContent, fileUri)) (Inr (l, c)) reply st))"
proof -
  from openDocument_attached[OF assms, of g fileUri fileContent None]
  obtain st1 where o: "openDocument g fileUri fileContent None st = Inr st1"
    and i: "fileUri \<in> openDocuments st1" by auto
  have "openDocuments (snd (findReferences fmt (now + 1000) fileUri (Position l c) reply st1))
          = openDocuments st1"
    by (simp add: findReferences_state awaitRequest_fields)
  with i o show ?thesis
    by (cases "findReferences fmt (now + 1000) fileUri (Position l c) reply st1")
       (auto simp: findReferencesWithLSP_def Let_def split: Outcome.splits)
qed

lemma showNat_zero: "showNat 0 = ''0''"
  by code_simp

lemma findReferences_example:
  "fst (findReferencesWithLSP ex_fmt ex_lang (\<lambda>l. None) 0 refRequest
          (Inr (''f()'', ''file:///r/a'')) (Inr (0, 0)) (Reply (LocationsResult []))
          (createLSPClient None))
     = Inr (''Found 0 references to '' @ [CHR 0x22] @ ''f'' @ [CHR 0x22], [])"
  by (simp add: findReferencesWithLSP_def findReferences_def awaitRequest_def sendRequest_def
        handleMessage_def responseHandler_def settle_def openDocument_def sendNotification_def
        sendMessage_def createLSPClient_def ex_lang_def truthy_string_def Let_def
        referencesMessage_def refRequest_def showNat_zero map_filter_simps)

theorem findReferences_leaves_document_open_witness:
  "process (createLSPClient None)
   \<and> fst (findReferencesWithLSP ex_fmt ex_lang (\<lambda>l. None) 0 refRequest
            (Inr (''f()'', ''file:///r/a'')) (Inr (0, 0)) (Reply (LocationsResult []))
            (createLSPClient None))
       = Inr (''Found 0 references to '' @ [CHR 0x22] @ ''f'' @ [CHR 0x22], [])
   \<and> isDocumentOpen ''file:///r/a''
       (snd (findReferencesWithLSP ex_fmt ex_lang (\<lambda>l. None) 0 refRequest
               (Inr (''f()'', ''file:///r/a'')) (Inr (0, 0)) (Reply (LocationsResult []))
               (createLSPClient None)))"
proof -
  have p: "process (createLSPClient None)" by (simp add: createLSPClient_def)
  from findReferences_leaves_document_open[OF p, of "''file:///r/a''" ex_fmt ex_lang "\<lambda>l. None" 0
         refRequest "''f()''" 0 0 "Reply (LocationsResult [])"] p
  show ?thesis
    by (simp add: findReferences_example isDocumentOpen_def)
qed

text \<open>
  The same holds for \<open>withLSPOperation\<close>, here with the hover request as its operation;
  \<open>handleGetSignatureHelp\<close>, whose \<open>finally\<close> block closes the document, is the handler
  that does what the claim says.
\<close>

lemma withLSPOperation_hover_leaves_document_open:
  assumes "process st"
  shows "fileUri \<in> openDocuments
           (snd (withLSPOperation g weh waitTime timeout now fileUri content lang
                   (hoverOperation fmt fileUri pos reply) st))"
proof -
  let ?l = "if truthy_string lang then the lang
            else if languageId st \<noteq> [] then languageId st else ''plaintext''"
  from openDocument_attached[OF assms, of g fileUri content "Some ?l"]
  obtain st1 where o: "openDocument g fileUri content (Some ?l) st = Inr st1"
    and i: "fileUri \<in> openDocuments st1" by auto
  have "openDocuments (snd (getHover fmt (now + waitTime) fileUri pos reply st1)) = openDocuments st1"
    by (simp add: getHover_def awaitRequest_fields)
  with o i show ?thesis
    by (cases "getHover fmt (now + waitTime) fileUri pos reply st1")
       (simp add: withLSPOperation_def hoverOperation_def Let_def)
qed

lemma handleGetSignatureHelp_closes_document:
  assumes "process st"
  shows "fileUri \<notin> openDocuments (snd (handleGetSignatureHelp fmt g fsh now fp
            (Inr (fileUri, content, l, c)) reply st))"
proof -
  from openDocument_attached[OF assms, of g fileUri content None]
  obtain st1 where o: "openDocument g fileUri content None st = Inr st1" and p1: "process st1"
    by auto
  obtain answer st2
    where h: "getSignatureHelp fmt (now + 500) fileUri (Position l c) reply st1 = (answer, st2)"
    by (cases "getSignatureHelp fmt (now + 500) fileUri (Position l c) reply st1")
  have "process (snd (getSignatureHelp fmt (now + 500) fileUri (Position l c) reply st1))"
    using p1 by (simp add: getSignatureHelp_def awaitRequest_fields)
  with h have p2: "process st2" by simp
  from closeDocument_attached[OF p2, of fileUri]
  obtain st3 where c: "closeDocument fileUri st2 = Inr st3" and n: "fileUri \<notin> openDocuments st3"
    by auto
  from o h c n show ?thesis
    by (simp add: handleGetSignatureHelp_def)
qed

subsection \<open>Rename on a server without rename\<close>

lemma openProjectFile_keeps:
  "process st \<Longrightarrow> freshPromises st \<Longrightarrow>
   process (openProjectFile g files target f st)
   \<and> freshPromises (openProjectFile g files target f st)
   \<and> languageId (openProjectFile g files target f st) = languageId st"
  by (auto simp: openProjectFile_def split: option.splits sum.splits dest: openDocument_Inr)

lemma openProjectFiles_keep:
  "process st \<Longrightarrow> freshPromises st \<Longrightarrow>
   process (fold (openProjectFile g files target) fs st)
   \<and> freshPromises (fold (openProjectFile g files target) fs st)
   \<and> languageId (fold (openProjectFile g files target) fs st) = languageId st"
proof (induction fs arbitrary: st)
  case Nil
  then show ?case by simp
next
  case (Cons f fs)
  from openProjectFile_keeps[OF Cons.prems, of g files target f]
    Cons.IH[of "openProjectFile g files target f st"]
  show ?case by simp
qed

lemma prepareRename_range:
  assumes "process st" and "freshPromises st"
  shows "fst (prepareRename fmt now u pos (Reply (RangeResult rg)) st) = RangeResult rg"
  using awaitRequest_outcome[OF assms, of fmt now "''textDocument/prepareRename''"
          "Some (TextDocumentPositionParams u pos)" "Reply (RangeResult rg)"]
  by (auto simp: prepareRename_def split: prod.splits Outcome.splits)

lemma prepareRename_state:
  "snd (prepareRename fmt now u pos reply st)
     = snd (awaitRequest fmt now ''textDocument/prepareRename''
              (Some (TextDocumentPositionParams u pos)) reply st)"
  by (auto simp: prepareRename_def split: prod.splits Outcome.splits)

text \<open>
  The error that \<open>sendRequest\<close> rejects with carries no \<open>code\<close>, and \<open>rename\<close> turns an
  error whose message names a missing method into null.
\<close>

lemma rename_error:
  assumes "process st" and "freshPromises st"
  shows "fst (rename fmt now u pos nn (ErrorReply e) st) =
           (let E = responseError fmt (languageId st)
                      \<lparr>p_method = ''textDocument/rename'',
                       p_params = Some (RenameParams u pos nn), deadline = now + 30000\<rparr> e
            in if methodMissing E then Resolved NullResult else Rejected E)"
  using awaitRequest_outcome[OF assms, of fmt now "''textDocument/rename''"
          "Some (RenameParams u pos nn)" "ErrorReply e"]
  by (auto simp: rename_def Let_def split: prod.splits Outcome.splits)

lemma rename_rejection_names_no_missing_method:
  "rename fmt now u pos nn reply st = (Rejected e, st1) \<Longrightarrow> \<not> methodMissing e"
  by (auto simp: rename_def split: prod.splits Outcome.splits if_splits)

text \<open>
  C3 fails on the text of the error.  Let the server answer \<open>textDocument/prepareRename\<close>
  with a range and \<open>textDocument/rename\<close> with an error, of code -32601 or any other.
  Then no file is modified, and the result of \<open>performRenameAtPosition\<close> is decided by the
  formatted message alone: "No changes from LSP rename operation" when it includes
  "Unhandled method" or "Method not found", the formatted message itself otherwise.  The
  branch that returns "LSP server doesn't support rename operation" is never taken.
\<close>

theorem rename_error_reply_reports_no_changes:
  assumes "process st" and "freshPromises st"
  shows "fst (performRenameAtPosition fmt g applyEdit projectFiles target tPrepare tRename request
               fileUri fileContent l c (Reply (RangeResult rg)) (ErrorReply e) (st, files))
           = (let E = responseError fmt (languageId st)
                        \<lparr>p_method = ''textDocument/rename'',
                         p_params = Some (RenameParams fileUri (Position l c) (rn_newName request)),
                         deadline = tRename + 30000\<rparr> e
              in if str_includes (message E) ''Unhandled method''
                    \<or> str_includes (message E) ''Method not found''
                 then Inl ''No changes from LSP rename operation''
                 else Inl (message E))
       \<and> snd (snd (performRenameAtPosition fmt g applyEdit projectFiles target tPrepare tRename
                      request fileUri fileContent l c (Reply (RangeResult rg)) (ErrorReply e)
                      (st, files)))
           = files"
proof -
  let ?st1 = "fold (openProjectFile g files target) projectFiles st"
  from openProjectFiles_keep[OF assms]
  have p1: "process ?st1" and f1: "freshPromises ?st1" and l1: "languageId ?st1 = languageId st"
    by auto
  from openDocument_attached[OF p1, of g fileUri fileContent None]
  obtain st2 where o: "openDocument g fileUri fileContent None ?st1 = Inr st2"
    and p2: "process st2" and f2: "freshPromises st2" and l2: "languageId st2 = languageId st"
    using f1 l1 by auto
  obtain pr st3
    where pr: "prepareRename fmt tPrepare fileUri (Position l c) (Reply (RangeResult rg)) st2
                 = (pr, st3)"
    by (cases "prepareRename fmt tPrepare fileUri (Position l c) (Reply (RangeResult rg)) st2")
  from prepareRename_range[OF p2 f2, of fmt tPrepare fileUri "Position l c" rg] pr
  have prv: "pr = RangeResult rg"
    by simp
  from prepareRename_state[of fmt tPrepare fileUri "Position l c" "Reply (RangeResult rg)" st2] pr
  have st3: "st3 = snd (awaitRequest fmt tPrepare ''textDocument/prepareRename''
                    (Some (TextDocumentPositionParams fileUri (Position l c)))
                    (Reply (RangeResult rg)) st2)"
    by simp
  have p3: "process st3" and f3: "freshPromises st3" and l3: "languageId st3 = languageId st"
    using p2 f2 l2 by (simp_all add: st3 awaitRequest_fields awaitRequest_fresh)
  obtain rr st4
    where rn: "rename fmt tRename fileUri (Position l c) (rn_newName request) (ErrorReply e) st3
                 = (rr, st4)"
    by (cases "rename fmt tRename fileUri (Position l c) (rn_newName request) (ErrorReply e) st3")
  let ?E = "responseError fmt (languageId st)
              \<lparr>p_method = ''textDocument/rename'',
               p_params = Some (RenameParams fileUri (Position l c) (rn_newName request)),
               deadline = tRename + 30000\<rparr> e"
  from rename_error[OF p3 f3, of fmt tRename fileUri "Position l c" "rn_newName request" e] rn l3
  have rrv: "rr = (if methodMissing ?E then Resolved NullResult else Rejected ?E)"
    by (simp add: Let_def)
  have cE: "code ?E = None" by (simp add: responseError_def)
  show ?thesis
    using o pr prv rn rrv cE
    by (simp add: performRenameAtPosition_def Let_def methodMissing_def)
qed

text \<open>
  When the server has no \<open>textDocument/prepareRename\<close> either, the handler stops before
  the rename request, again without touching a file.
\<close>

lemma prepareRename_error:
  assumes "process st" and "freshPromises st"
  shows "fst (prepareRename fmt now u pos (ErrorReply e) st) = NullResult"
  using awaitRequest_outcome[OF assms, of fmt now "''textDocument/prepareRename''"
          "Some (TextDocumentPositionParams u pos)" "ErrorReply e"]
  by (auto simp: prepareRename_def split: prod.splits Outcome.splits)

lemma prepareRename_error_reports_cannot_rename:
  assumes "process st" and "freshPromises st"
  shows "fst (performRenameAtPosition fmt g applyEdit projectFiles target tPrepare tRename
               request fileUri fileContent l c (ErrorReply e) renameReply (st, files))
           = Inl (''Cannot rename symbol at line '' @ showNat (l + 1)
                    @ '', column '' @ showNat (c + 1))
       \<and> snd (snd (performRenameAtPosition fmt g applyEdit projectFiles target tPrepare tRename
                      request fileUri fileContent l c (ErrorReply e) renameReply (st, files)))
           = files"
proof -
  let ?st1 = "fold (openProjectFile g files target) projectFiles st"
  from openProjectFiles_keep[OF assms]
  have p1: "process ?st1" and f1: "freshPromises ?st1"
    by auto
  from openDocument_attached[OF p1, of g fileUri fileContent None]
  obtain st2 where o: "openDocument g fileUri fileContent None ?st1 = Inr st2"
    and p2: "process st2" and f2: "freshPromises st2"
    using f1 by auto
  obtain pr st3
    where pr: "prepareRename fmt tPrepare fileUri (Position l c) (ErrorReply e) st2 = (pr, st3)"
    by (cases "prepareRename fmt tPrepare fileUri (Position l c) (ErrorReply e) st2")
  from prepareRename_error[OF p2 f2, of fmt tPrepare fileUri "Position l c" e] pr
  have "pr = NullResult"
    by simp
  with o pr show ?thesis
    by (simp add: performRenameAtPosition_def Let_def)
qed

lemma methodNotFound_formatted:
  "message (responseError ex_fmt ''plaintext''
              \<lparr>p_method = ''textDocument/rename'',
               p_params = Some (RenameParams ''file:///r/a'' (Position 0 0) ''h''),
               deadline = 32000\<rparr> methodNotFound)
     = ''textDocument/rename: Method not found''"
  by (simp add: responseError_def ex_fmt_def methodNotFound_def)

lemma methodNotFound_included:
  "str_includes ''textDocument/rename: Method not found'' ''Method not found''"
  by simp

lemma unsupported_text_absent:
  "\<not> str_includes ''No changes from LSP rename operation'' (''doesn'' @ [CHR 0x27] @ ''t support rename'')"
  by simp

theorem rename_error_reply_reports_no_changes_witness:
  "process (createLSPClient None) \<and> freshPromises (createLSPClient None)
   \<and> err_code methodNotFound = - 32601
   \<and> fst (performRenameAtPosition ex_fmt ex_lang ex_applyWorkspaceEdit [''/r/a'', ''/r/b''] ''/r/a'' 1000 2000
            renameRequest ''file:///r/a'' ''f()'' 0 0
            (Reply (RangeResult (Range (Position 0 0) (Position 0 1)))) (ErrorReply methodNotFound)
            (createLSPClient None, diskFiles))
       = Inl ''No changes from LSP rename operation''
   \<and> snd (snd (performRenameAtPosition ex_fmt ex_lang ex_applyWorkspaceEdit [''/r/a'', ''/r/b''] ''/r/a'' 1000 2000
            renameRequest ''file:///r/a'' ''f()'' 0 0
            (Reply (RangeResult (Range (Position 0 0) (Position 0 1)))) (ErrorReply methodNotFound)
            (createLSPClient None, diskFiles)))
       = diskFiles
   \<and> \<not> str_includes ''No changes from LSP rename operation''
         (''doesn'' @ [CHR 0x27] @ ''t support rename'')"
proof -
  have p: "process (createLSPClient None)" by (simp add: createLSPClient_def)
  have l: "languageId (createLSPClient None) = ''plaintext''"
    by (simp add: createLSPClient_def truthy_string_def)
  have n: "rn_newName renameRequest = ''h''" by (simp add: renameRequest_def)
  have c: "err_code methodNotFound = - 32601" by (simp add: methodNotFound_def)
  from rename_error_reply_reports_no_changes[OF p createLSPClient_fresh,
         of ex_fmt ex_lang ex_applyWorkspaceEdit "[''/r/a'', ''/r/b'']" "''/r/a''" 1000 2000 renameRequest
            "''file:///r/a''" "''f()''" 0 0 "Range (Position 0 0) (Position 0 1)" methodNotFound
            diskFiles]
    p createLSPClient_fresh c unsupported_text_absent
  show ?thesis
    unfolding l n by (simp add: methodNotFound_formatted methodNotFound_included Let_def)
qed

section \<open>Properties of the framed transport\<close>

subsection \<open>Numerals and the header\<close>

lemma decimalDigits_small: "d \<in> set (decimalDigits n) \<Longrightarrow> d < 10"
proof (induction n arbitrary: d rule: decimalDigits.induct)
  case (1 n)
  then show ?case
    by (subst (asm) (2) decimalDigits.simps) (auto split: if_splits)
qed

lemma decimalDigits_nonempty: "decimalDigits n \<noteq> []"
  by (subst decimalDigits.simps) simp

lemma decimalDigits_value: "foldl (\<lambda>acc d. 10 * acc + d) 0 (decimalDigits n) = n"
proof (induction n rule: decimalDigits.induct)
  case (1 n)
  show ?case
  proof (cases "n < 10")
    case True
    then show ?thesis by (subst decimalDigits.simps) simp
  next
    case False
    with 1 show ?thesis by (subst decimalDigits.simps) simp
  qed
qed

lemma parseInt_numberToString: "parseInt (numberToString n) = n"
proof -
  have "foldl (\<lambda>acc d. 10 * acc + (d - 48)) a (map (\<lambda>d. 48 + d) ds)
          = foldl (\<lambda>acc d. 10 * acc + d) a ds" for a :: nat and ds
    by (induction ds arbitrary: a) simp_all
  then show ?thesis
    by (simp add: parseInt_def numberToString_def decimalDigits_value)
qed

lemma numberToString_digits: "list_all isDigit (numberToString n)"
proof -
  have "\<forall>d \<in> set (decimalDigits n). d < 10"
    using decimalDigits_small by blast
  then show ?thesis
    by (fastforce simp: numberToString_def isDigit_def list_all_iff)
qed

lemma numberToString_nonempty: "numberToString n \<noteq> []"
  by (simp add: numberToString_def decimalDigits_nonempty)

lemma js_header: "js ''Content-Length: '' = [67,111,110,116,101,110,116,45,76,101,110,103,116,104,58,32]"
  by (simp add: js_def)

lemma indexOf_crlf2:
  "13 \<notin> set pre \<Longrightarrow> indexOf (pre @ crlf2 @ rest) crlf2 = Some (length pre)"
proof (induction pre)
  case Nil
  then show ?case by (simp add: crlf2_def)
next
  case (Cons c cs)
  then have "take 4 (c # cs @ crlf2 @ rest) \<noteq> crlf2"
    by (auto simp: crlf2_def)
  with Cons show ?case by (simp add: crlf2_def)
qed

lemma header_no_cr: "13 \<notin> set (js ''Content-Length: '' @ numberToString n)"
  using numberToString_digits[of n]
  by (auto simp: js_header list_all_iff isDigit_def)

lemma matchContentLength_header:
  assumes "list_all isDigit ds" and "ds \<noteq> []"
  shows "matchContentLength (js ''Content-Length: '' @ ds) = Some ds"
proof -
  have tw: "takeWhile isDigit ds = ds"
    using assms(1) by (simp add: list_all_iff)
  show ?thesis
    by (simp add: js_header Let_def tw assms(2))
qed

lemma readHeader_frame:
  "readHeader \<lparr>buffer = frame content, contentLength = - 1\<rparr>
     = Body \<lparr>buffer = content, contentLength = int (byteLength content)\<rparr>"
proof -
  define h where "h = js ''Content-Length: '' @ numberToString (byteLength content)"
  have f: "frame content = h @ crlf2 @ content"
    by (simp add: frame_def h_def)
  have "13 \<notin> set h"
    unfolding h_def by (rule header_no_cr)
  then have i: "indexOf (frame content) crlf2 = Some (length h)"
    unfolding f by (rule indexOf_crlf2)
  have t: "take (length h) (frame content) = h"
    unfolding f by simp
  have d: "drop (length h + 4) (frame content) = content"
    unfolding f by (simp add: crlf2_def)
  have m: "matchContentLength h = Some (numberToString (byteLength content))"
    unfolding h_def
    using numberToString_digits numberToString_nonempty by (rule matchContentLength_header)
  show ?thesis
    by (simp add: readHeader_def i t d m parseInt_numberToString)
qed

lemma byteLength_ge: "length s \<le> byteLength s"
  by (induction s rule: byteLength.induct) (auto simp: unitLength_def)

lemma byteLength_ascii: "list_all (\<lambda>u. u < 128) s \<Longrightarrow> byteLength s = length s"
  by (induction s rule: byteLength.induct) (auto simp: unitLength_def highSurrogate_def)

lemma byteLength_non_ascii: "\<not> list_all (\<lambda>u. u < 128) s \<Longrightarrow> length s < byteLength s"
proof (induction s rule: byteLength.induct)
  case 1
  then show ?case by simp
next
  case (2 u)
  then show ?case by (simp add: unitLength_def)
next
  case (3 u v us)
  then show ?case
    using byteLength_ge[of us] byteLength_ge[of "v # us"]
    by (auto simp: unitLength_def)
qed

lemma processBuffer_empty:
  "processBuffer parse fmt \<lparr>buffer = [], contentLength = c\<rparr> st = (\<lparr>buffer = [], contentLength = c\<rparr>, st)"
  by (subst processBuffer.simps) simp

lemma frame_nonempty: "frame content \<noteq> []"
  by (simp add: frame_def js_header)

subsection \<open>Writing a frame and reading it back\<close>

text \<open>
  The frame that \<open>sendMessage\<close> writes is handed to the \<open>data\<close> handler in one piece, as
  the string it was written from (UTF-8 decoding gives back a well-formed string that
  was UTF-8 encoded), with the receive side in its initial state.
\<close>

text \<open>
  C1 fails on a message whose JSON text has a character outside ASCII.  The header
  carries the byte length of the text, the reader compares it with the length of its
  buffer in UTF-16 code units, which is smaller: the body is never cut off, nothing is
  delivered (the client state is unchanged), and the reader goes on waiting for data that
  belongs to the next frame.
\<close>

theorem non_ascii_frame_is_not_delivered:
  assumes "\<not> list_all (\<lambda>u. u < 128) (stringify m)"
  shows "onData parse fmt (written stringify m) (\<lparr>buffer = [], contentLength = - 1\<rparr>, st)
           = (\<lparr>buffer = stringify m, contentLength = int (byteLength (stringify m))\<rparr>, st)
       \<and> int (length (stringify m)) < int (byteLength (stringify m))"
  using byteLength_non_ascii[OF assms]
  by (subst onData_def, simp, subst processBuffer.simps)
     (simp add: written_def readHeader_frame frame_nonempty)

lemma numberToString_one: "numberToString (Suc 0) = [49]"
  by (simp add: numberToString_def decimalDigits.simps)

lemma symbolQuery_units:
  "ex_stringify (symbolQuery [CHR 0xE9]) =
    [123, 34, 106, 115, 111, 110, 114, 112, 99, 34, 58, 34, 50, 46, 48, 34, 44,
     34, 105, 100, 34, 58, 49, 44, 34, 109, 101, 116, 104, 111, 100, 34, 58,
     34, 119, 111, 114, 107, 115, 112, 97, 99, 101, 47, 115, 121, 109, 98, 111,
     108, 34, 44, 34, 112, 97, 114, 97, 109, 115, 34, 58, 123, 34, 113, 117,
     101, 114, 121, 34, 58, 34, 233, 34, 125, 125]"
  by (simp add: ex_stringify_def symbolQuery_def js_def numberToString_one)

lemma symbolQuery_lengths:
  "length (ex_stringify (symbolQuery [CHR 0xE9])) = 75"
  "byteLength (ex_stringify (symbolQuery [CHR 0xE9])) = 76"
  "\<not> list_all (\<lambda>u. u < 128) (ex_stringify (symbolQuery [CHR 0xE9]))"
  by (simp_all add: symbolQuery_units unitLength_def highSurrogate_def)

theorem non_ascii_frame_is_not_delivered_witness:
  "\<not> list_all (\<lambda>u. u < 128) (ex_stringify (symbolQuery [CHR 0xE9]))
   \<and> length (ex_stringify (symbolQuery [CHR 0xE9])) = 75
   \<and> onData ex_parse ex_fmt (written ex_stringify (symbolQuery [CHR 0xE9]))
         (\<lparr>buffer = [], contentLength = - 1\<rparr>, createLSPClient None)
       = (\<lparr>buffer = ex_stringify (symbolQuery [CHR 0xE9]), contentLength = 76\<rparr>,
          createLSPClient None)"
  using non_ascii_frame_is_not_delivered[of ex_stringify "symbolQuery [CHR 0xE9]" ex_parse
          ex_fmt "createLSPClient None"]
  by (simp add: symbolQuery_lengths)

text \<open>
  For a message whose JSON text is ASCII, and which \<open>JSON.parse\<close> reads back from that
  text, the frame is delivered: \<open>handleMessage\<close> gets the message and the receive side is
  back in its initial state.
\<close>

lemma ascii_frame_round_trip:
  assumes "list_all (\<lambda>u. u < 128) (stringify m)" and "parse (stringify m) = Some m"
  shows "onData parse fmt (written stringify m) (\<lparr>buffer = [], contentLength = - 1\<rparr>, st)
           = (\<lparr>buffer = [], contentLength = - 1\<rparr>, handleMessage fmt m st)"
  using byteLength_ascii[OF assms(1)] assms(2)
  by (subst onData_def, simp, subst processBuffer.simps)
     (simp add: written_def readHeader_frame frame_nonempty processBuffer_empty)

lemma ascii_frame_example:
  "onData ex_parse ex_fmt (written ex_stringify (symbolQuery ''e''))
      (\<lparr>buffer = [], contentLength = - 1\<rparr>, createLSPClient None)
     = (\<lparr>buffer = [], contentLength = - 1\<rparr>,
        handleMessage ex_fmt (symbolQuery ''e'') (createLSPClient None))"
proof -
  have a: "list_all (\<lambda>u. u < 128) (ex_stringify (symbolQuery ''e''))"
    by (simp add: ex_stringify_def symbolQuery_def js_def numberToString_one)
  have p: "ex_parse (ex_stringify (symbolQuery ''e'')) = Some (symbolQuery ''e'')"
    by (simp add: ex_parse_def)
  from ascii_frame_round_trip[of ex_stringify "symbolQuery ''e''" ex_parse, OF a p]
  show ?thesis .
qed

end
